theory Spec2Isabelle
  imports Main
begin

section \<open>Schema model\<close>

text \<open>
  The two emitters (\<^verbatim>\<open>src/parser/to-sql.js\<close>, \<^verbatim>\<open>src/parser/to-lua.js\<close>) read the same
  parsed JSON document: an array of databases, each with tables, each with columns and
  indexes. The objects are modelled as records whose fields have the types of the data
  model: a field that may be absent is an \<open>option\<close> (\<open>None\<close> is JavaScript's
  \<^verbatim>\<open>undefined\<close>), a flag that is only tested for truthiness is a \<open>bool\<close> (absent is
  \<open>False\<close>), and a number is an \<open>int\<close> (the integer-valued numbers; fractions, JSON
  \<^verbatim>\<open>null\<close> and fields holding a value of another type than the data model gives them
  are outside the model). A default value is tested for its type by the code, so it is a
  tagged scalar.
\<close>

datatype error = Error | TypeError | RangeError | ReferenceError | SyntaxError

datatype jval = JNum int | JStr string | JBool bool

record code_value =
  v_code :: int
  v_value :: string

record column =
  c_name :: string
  c_type :: string
  c_nullable :: bool
  c_defaultValue :: "jval option"
  c_size :: "string option"
  c_unsigned :: bool
  c_autoIncrement :: bool
  c_minValue :: "int option"
  c_maxValue :: "int option"
  c_minLength :: "int option"
  c_maxLength :: "int option"
  c_minSize :: "int option"
  c_maxSize :: "int option"
  c_values :: "code_value list option"
  c_column :: "string option"
  c_ondelete :: "string option"
  c_comments :: "string option"
  c_objectType :: "string option"

record index =
  i_type :: string
  i_columns :: "string list"

record table =
  t_name :: string
  t_type :: string
  t_columns :: "column list"
  t_indexes :: "index list"

record database =
  db_name :: string
  db_type :: string
  db_tables :: "table list"

section \<open>JavaScript primitives used by the emitters\<close>

text \<open>\<^verbatim>\<open>Number.isSafeInteger\<close> on an integer-valued number.\<close>

definition isSafeInteger :: "int \<Rightarrow> bool" where
  "isSafeInteger n = (- 9007199254740991 \<le> n \<and> n \<le> 9007199254740991)"

text \<open>The decimal text of an integer, as string concatenation and \<^verbatim>\<open>%d\<close> print it.\<close>

definition digit_char :: "nat \<Rightarrow> char" where
  "digit_char d = char_of (48 + d)"

fun digits :: "nat \<Rightarrow> string" where
  "digits n = (if n < 10 then [digit_char n] else digits (n div 10) @ [digit_char (n mod 10)])"

declare digits.simps [simp del]

definition show_int :: "int \<Rightarrow> string" where
  "show_int i = (if i < 0 then CHR ''-'' # digits (nat (- i)) else digits (nat i))"

text \<open>Character classes of the regular expressions.\<close>

definition is_lower :: "char \<Rightarrow> bool" where
  "is_lower c = (97 \<le> (of_char c :: nat) \<and> (of_char c :: nat) \<le> 122)"

definition is_upper :: "char \<Rightarrow> bool" where
  "is_upper c = (65 \<le> (of_char c :: nat) \<and> (of_char c :: nat) \<le> 90)"

definition is_digit :: "char \<Rightarrow> bool" where
  "is_digit c = (48 \<le> (of_char c :: nat) \<and> (of_char c :: nat) \<le> 57)"

definition is_hex :: "char \<Rightarrow> bool" where
  "is_hex c = (is_digit c
     \<or> (97 \<le> (of_char c :: nat) \<and> (of_char c :: nat) \<le> 102)
     \<or> (65 \<le> (of_char c :: nat) \<and> (of_char c :: nat) \<le> 70))"

text \<open>\<^verbatim>\<open>/^[a-z_]+$/\<close>\<close>

definition valid_table_name :: "string \<Rightarrow> bool" where
  "valid_table_name s = (s \<noteq> [] \<and> list_all (\<lambda>c. is_lower c \<or> c = CHR ''_'') s)"

text \<open>\<^verbatim>\<open>/^[a-z][a-zA-Z0-9]+$/\<close>\<close>

definition valid_column_name :: "string \<Rightarrow> bool" where
  "valid_column_name s = (case s of
      [] \<Rightarrow> False
    | c # cs \<Rightarrow> is_lower c \<and> cs \<noteq> [] \<and> list_all (\<lambda>d. is_lower d \<or> is_upper d \<or> is_digit d) cs)"

text \<open>\<^verbatim>\<open>/^[A-Z0-9_]+$/\<close>\<close>

definition valid_value_name :: "string \<Rightarrow> bool" where
  "valid_value_name s = (s \<noteq> [] \<and> list_all (\<lambda>c. is_upper c \<or> is_digit c \<or> c = CHR ''_'') s)"

text \<open>\<^verbatim>\<open>/^0x[0-9a-fA-F]+$/\<close>\<close>

definition hex_literal :: "string \<Rightarrow> bool" where
  "hex_literal s = (case s of
      a # b # cs \<Rightarrow> a = CHR ''0'' \<and> b = CHR ''x'' \<and> cs \<noteq> [] \<and> list_all is_hex cs
    | _ \<Rightarrow> False)"

text \<open>\<^verbatim>\<open>s.split('.')\<close>: the pieces between the separators, never an empty array.\<close>

fun split_on :: "char \<Rightarrow> string \<Rightarrow> string list" where
  "split_on sep [] = [[]]"
| "split_on sep (x # xs) =
     (if x = sep then [] # split_on sep xs
      else (case split_on sep xs of
              [] \<Rightarrow> [[x]]
            | w # ws \<Rightarrow> (x # w) # ws))"

text \<open>\<^verbatim>\<open>xs.join(sep)\<close>\<close>

fun join :: "string \<Rightarrow> string list \<Rightarrow> string" where
  "join sep [] = []"
| "join sep [x] = x"
| "join sep (x # y # ys) = x @ sep @ join sep (y # ys)"

text \<open>\<^verbatim>\<open>s.replace(pat, rep)\<close> with a string pattern: the first occurrence only.\<close>

fun replace_first :: "string \<Rightarrow> string \<Rightarrow> string \<Rightarrow> string" where
  "replace_first pat rep [] = (if pat = [] then rep else [])"
| "replace_first pat rep (x # xs) =
     (if take (length pat) (x # xs) = pat then rep @ drop (length pat) (x # xs)
      else x # replace_first pat rep xs)"

text \<open>
  \<^verbatim>\<open>s.replace(/DEFAULT .*$/, "")\<close>: the leftmost place where \<^verbatim>\<open>DEFAULT \<close> begins and no
  line terminator follows up to the end of the text; everything from there is removed.
\<close>

definition line_terminator :: "char \<Rightarrow> bool" where
  "line_terminator c = (c = CHR 0x0A \<or> c = CHR 0x0D)"

fun strip_default :: "string \<Rightarrow> string" where
  "strip_default [] = []"
| "strip_default (x # xs) =
     (if take 8 (x # xs) = ''DEFAULT '' \<and> \<not> list_ex line_terminator (drop 8 (x # xs)) then []
      else x # strip_default xs)"

section \<open>SQL emitter: column rules\<close>

definition INTEGER_SIZES :: "string list" where
  "INTEGER_SIZES = [''TINYINT'', ''SMALLINT'', ''MEDIUMINT'', ''INT'', ''BIGINT'']"

definition INTEGER_MIN :: "(string \<times> int) list" where
  "INTEGER_MIN = [(''TINYINT'', - 128), (''SMALLINT'', - 32768), (''MEDIUMINT'', - 8388608),
     (''INT'', - 2147483648), (''BIGINT'', - 99999999999999)]"

definition INTEGER_MAX_UNSIGNED :: "(string \<times> int) list" where
  "INTEGER_MAX_UNSIGNED = [(''TINYINT'', 255), (''SMALLINT'', 65535), (''MEDIUMINT'', 16777215),
     (''INT'', 4294967295), (''BIGINT'', 99999999999999)]"

definition INTEGER_MAX_SIGNED :: "(string \<times> int) list" where
  "INTEGER_MAX_SIGNED = [(''TINYINT'', 127), (''SMALLINT'', 32767), (''MEDIUMINT'', 8388607),
     (''INT'', 2147483647), (''BIGINT'', 99999999999999)]"

text \<open>
  \<^verbatim>\<open>absMin\<close> and \<^verbatim>\<open>absMax\<close> of \<^verbatim>\<open>processIntegerColumn\<close>. A key missing from a
  table reads as \<^verbatim>\<open>undefined\<close>, and a comparison with \<^verbatim>\<open>undefined\<close> is false.
\<close>

definition absMin :: "string \<Rightarrow> bool \<Rightarrow> int option" where
  "absMin sz isUnsigned = (if isUnsigned then Some 0 else map_of INTEGER_MIN sz)"

definition absMax :: "string \<Rightarrow> bool \<Rightarrow> int option" where
  "absMax sz isUnsigned =
     (if isUnsigned then map_of INTEGER_MAX_UNSIGNED sz else map_of INTEGER_MAX_SIGNED sz)"

definition js_lt :: "int \<Rightarrow> int option \<Rightarrow> bool" where
  "js_lt a b = (case b of None \<Rightarrow> False | Some b' \<Rightarrow> a < b')"

definition js_gt :: "int \<Rightarrow> int option \<Rightarrow> bool" where
  "js_gt a b = (case b of None \<Rightarrow> False | Some b' \<Rightarrow> a > b')"

definition null_clause :: "bool \<Rightarrow> string" where
  "null_clause nullable = (if nullable then ''NULL'' else ''NOT NULL'')"

definition processIntegerColumn :: "column \<Rightarrow> error + string" where
  "processIntegerColumn col =
     (case c_size col of
        None \<Rightarrow> Inl TypeError
      | Some sz \<Rightarrow>
          if sz \<notin> set INTEGER_SIZES then Inl TypeError
          else
            let isUnsigned = c_unsigned col;
                amin = absMin sz isUnsigned;
                amax = absMax sz isUnsigned
            in if (case c_minValue col of None \<Rightarrow> False | Some minimum \<Rightarrow> js_lt minimum amin)
               then Inl RangeError
               else if (case c_maxValue col of None \<Rightarrow> False | Some maximum \<Rightarrow> js_gt maximum amax)
               then Inl RangeError
               else (case c_defaultValue col of
                       None \<Rightarrow>
                         Inr (sz @ '' '' @ (if isUnsigned then ''UNSIGNED'' else []) @ '' ''
                              @ null_clause (c_nullable col) @ '' '' @ [])
                     | Some (JNum d) \<Rightarrow>
                         if \<not> isSafeInteger d then Inl TypeError
                         else if js_lt d amin \<or> js_gt d amax then Inl RangeError
                         else Inr (sz @ '' '' @ (if isUnsigned then ''UNSIGNED'' else []) @ '' ''
                              @ null_clause (c_nullable col) @ '' '' @ (''DEFAULT '' @ show_int d))
                     | Some _ \<Rightarrow> Inl TypeError))"

definition processSerialColumn :: "column \<Rightarrow> error + string" where
  "processSerialColumn col =
     (case c_size col of
        None \<Rightarrow> Inl TypeError
      | Some sz \<Rightarrow>
          if sz \<notin> set INTEGER_SIZES then Inl TypeError
          else Inr (sz @ '' UNSIGNED NOT NULL AUTO_INCREMENT''))"

definition processTimestampColumn :: "column \<Rightarrow> error + string" where
  "processTimestampColumn col =
     (case c_defaultValue col of
        None \<Rightarrow> Inr (''BIGINT UNSIGNED NOT NULL '' @ [])
      | Some d \<Rightarrow>
          if \<not> c_unsigned col then Inl Error
          else if d \<noteq> JNum 0 then Inl RangeError
          else Inr (''BIGINT UNSIGNED NOT NULL '' @ (''DEFAULT '' @ show_int 0)))"

text \<open>The two spellings of the empty string literal: two single quotes, two double quotes.\<close>

definition empty_single :: string where
  "empty_single = [CHR 0x27, CHR 0x27]"

definition empty_double :: string where
  "empty_double = [CHR 0x22, CHR 0x22]"

definition processStringColumn :: "column \<Rightarrow> error + string" where
  "processStringColumn col =
     (case c_maxLength col of
        None \<Rightarrow> Inl TypeError
      | Some maximumLength \<Rightarrow>
          if \<not> isSafeInteger maximumLength then Inl TypeError
          else if (case c_minLength col of None \<Rightarrow> False
                   | Some minimumLength \<Rightarrow> \<not> isSafeInteger minimumLength) then Inl TypeError
          else if (case c_minLength col of None \<Rightarrow> False
                   | Some minimumLength \<Rightarrow> minimumLength < 1 \<or> minimumLength > maximumLength)
          then Inl RangeError
          else if (case c_defaultValue col of None \<Rightarrow> False
                   | Some d \<Rightarrow> d \<noteq> JStr empty_single \<and> d \<noteq> JStr empty_double) then Inl Error
          else Inr (''VARCHAR('' @ show_int maximumLength @ '') '' @ null_clause (c_nullable col)
                    @ '' '' @ (if c_defaultValue col \<noteq> None then ''DEFAULT '' @ empty_single else [])))"

text \<open>
  The default of a binary column: a hexadecimal literal is kept, either spelling of the
  empty string becomes the single-quoted one, anything else is an error. A number or a
  boolean is turned into its text by the regular expression test, which never begins with
  \<^verbatim>\<open>0x\<close>, and is not loosely equal to either spelling.
\<close>

definition binaryDefault :: "jval \<Rightarrow> error + string" where
  "binaryDefault d = (case d of
      JStr s \<Rightarrow> if hex_literal s then Inr s
                else if s = empty_single \<or> s = empty_double then Inr empty_single
                else Inl Error
    | _ \<Rightarrow> Inl Error)"

definition processBinaryColumn :: "column \<Rightarrow> error + string" where
  "processBinaryColumn col =
     (case c_maxSize col of
        None \<Rightarrow> Inl TypeError
      | Some maximumSize \<Rightarrow>
          if \<not> isSafeInteger maximumSize then Inl TypeError
          else if (case c_minSize col of None \<Rightarrow> False | Some m \<Rightarrow> \<not> isSafeInteger m) then Inl TypeError
          else if (case c_minSize col of None \<Rightarrow> False | Some m \<Rightarrow> m < 1 \<or> m > maximumSize)
          then Inl RangeError
          else
            let minimumSize = (case c_minSize col of None \<Rightarrow> 0 | Some m \<Rightarrow> m)
            in (case (case c_defaultValue col of None \<Rightarrow> Inr None
                      | Some d \<Rightarrow> (case binaryDefault d of Inl e \<Rightarrow> Inl e | Inr t \<Rightarrow> Inr (Some t))) of
                  Inl e \<Rightarrow> Inl e
                | Inr defaultValue \<Rightarrow>
                    Inr ((if minimumSize = maximumSize then [] else ''VAR'') @ ''BINARY(''
                         @ show_int maximumSize @ '') '' @ null_clause (c_nullable col) @ '' ''
                         @ (case defaultValue of None \<Rightarrow> [] | Some t \<Rightarrow> ''DEFAULT '' @ t))))"

definition processBooleanColumn :: "column \<Rightarrow> error + string" where
  "processBooleanColumn col =
     (case c_defaultValue col of
        None \<Rightarrow> Inr (''TINYINT(1) UNSIGNED '' @ null_clause (c_nullable col) @ '' '' @ [])
      | Some d \<Rightarrow>
          if d \<noteq> JNum 0 \<and> d \<noteq> JNum 1 then Inl TypeError
          else Inr (''TINYINT(1) UNSIGNED '' @ null_clause (c_nullable col) @ '' ''
                    @ (''DEFAULT '' @ (if d = JNum 0 then show_int 0 else show_int 1))))"

text \<open>
  The loop of \<^verbatim>\<open>processCodeColumn\<close> over the values, with the two sets and the highest
  code seen so far as its state.
\<close>

fun codeValues :: "code_value list \<Rightarrow> int list \<Rightarrow> string list \<Rightarrow> int
    \<Rightarrow> error + (int list \<times> string list \<times> int)" where
  "codeValues [] valueCodes valueNames highestCode = Inr (valueCodes, valueNames, highestCode)"
| "codeValues (val # vals) valueCodes valueNames highestCode =
     (let code = v_code val; name = v_value val
      in if \<not> isSafeInteger code \<or> code < 0 then Inl TypeError
         else if \<not> valid_value_name name then Inl Error
         else if code \<in> set valueCodes then Inl ReferenceError
         else if name \<in> set valueNames then Inl ReferenceError
         else codeValues vals (code # valueCodes) (name # valueNames)
                (if code > highestCode then code else highestCode))"

text \<open>
  A column without \<^verbatim>\<open>values\<close> makes \<^verbatim>\<open>col.values.length\<close> fail with the runtime's
  \<^verbatim>\<open>TypeError\<close>.
\<close>

definition processCodeColumn :: "column \<Rightarrow> error + string" where
  "processCodeColumn col =
     (case c_values col of
        None \<Rightarrow> Inl TypeError
      | Some vals \<Rightarrow>
          if length vals = 0 then Inl Error
          else (case codeValues vals [] [] 0 of
                  Inl e \<Rightarrow> Inl e
                | Inr (valueCodes, valueNames, highestCode) \<Rightarrow>
                    if highestCode > 255 then Inl RangeError
                    else (case c_defaultValue col of
                            None \<Rightarrow> Inr (''TINYINT UNSIGNED '' @ null_clause (c_nullable col) @ '' '' @ [])
                          | Some (JNum d) \<Rightarrow>
                              if d \<notin> set valueCodes then Inl ReferenceError
                              else Inr (''TINYINT UNSIGNED '' @ null_clause (c_nullable col) @ '' ''
                                        @ (''DEFAULT '' @ show_int d))
                          | Some _ \<Rightarrow> Inl ReferenceError)))"

section \<open>SQL emitter: tables\<close>

text \<open>
  \<^verbatim>\<open>processTable(table, database, databases)\<close>. The code compares the target database of
  a foreign key with the current one as objects (\<^verbatim>\<open>targetDatabase == database\<close>), so a
  database is passed with its position in \<^verbatim>\<open>databases\<close>, which is its identity.
\<close>

fun processIndexes :: "index list \<Rightarrow> string list \<Rightarrow> error + string list" where
  "processIndexes [] tableSqlIdxes = Inr tableSqlIdxes"
| "processIndexes (idx # idxs) tableSqlIdxes =
     (if i_type idx = ''primary''
      then processIndexes idxs (tableSqlIdxes @ [''PRIMARY KEY ('' @ join '','' (i_columns idx) @ '')''])
      else if i_type idx = ''unique''
      then processIndexes idxs (tableSqlIdxes @ [''UNIQUE ('' @ join '','' (i_columns idx) @ '')''])
      else if i_type idx = ''index''
      then processIndexes idxs (tableSqlIdxes @ [''INDEX ('' @ join '','' (i_columns idx) @ '')''])
      else Inl Error)"

text \<open>
  Lines 305 to 339: the target of a foreign key, or the error of the first failing check.
  The segments of the path are popped from the end: the column, the table, and the
  database if there is a third segment; \<^verbatim>\<open>pop\<close> on an empty array gives \<^verbatim>\<open>undefined\<close>.
\<close>

definition fkTarget :: "column \<Rightarrow> nat \<times> database \<Rightarrow> database list
    \<Rightarrow> error + ((nat \<times> database) \<times> table \<times> column)" where
  "fkTarget col database databases =
     (case c_column col of
        None \<Rightarrow> Inl TypeError
      | Some path \<Rightarrow>
          (case rev (split_on CHR ''.'' path) of
             [] \<Rightarrow> Inl ReferenceError
           | targetCol # parts1 \<Rightarrow>
               if targetCol = [] then Inl ReferenceError
               else (case parts1 of
                       [] \<Rightarrow> Inl ReferenceError
                     | targetTable # parts2 \<Rightarrow>
                         if targetTable = [] then Inl ReferenceError
                         else (case (case parts2 of
                                       [] \<Rightarrow> Some database
                                     | targetDatabase # parts3 \<Rightarrow>
                                         find (\<lambda>(i, db). db_name db = targetDatabase)
                                           (enumerate 0 databases)) of
                                 None \<Rightarrow> Inl ReferenceError
                               | Some targetDatabase \<Rightarrow>
                                   (case find (\<lambda>t. t_name t = targetTable)
                                           (db_tables (snd targetDatabase)) of
                                      None \<Rightarrow> Inl ReferenceError
                                    | Some tt \<Rightarrow>
                                        (case find (\<lambda>c. c_name c = targetCol) (t_columns tt) of
                                           None \<Rightarrow> Inl ReferenceError
                                         | Some tc \<Rightarrow>
                                             if c_nullable tc then Inl TypeError
                                             else Inr (targetDatabase, tt, tc)))))))"

text \<open>Lines 341 to 352: the type clause of the target, without its auto-increment and default.\<close>

definition fkTargetClause :: "column \<Rightarrow> error + string" where
  "fkTargetClause targetCol =
     (if c_type targetCol = ''integer''
      then (case processIntegerColumn targetCol of
              Inl e \<Rightarrow> Inl e
            | Inr s \<Rightarrow> Inr (strip_default (replace_first ''AUTO_INCREMENT'' [] s)))
      else if c_type targetCol = ''serial''
      then (case processSerialColumn targetCol of
              Inl e \<Rightarrow> Inl e
            | Inr s \<Rightarrow> Inr (strip_default (replace_first ''AUTO_INCREMENT'' [] s)))
      else Inl TypeError)"

text \<open>
  The \<^verbatim>\<open>FK\<close> case of the switch: the clause of the column and the index clauses it adds
  to \<^verbatim>\<open>tableSqlIdxes\<close>.
\<close>

definition processFKColumn :: "column \<Rightarrow> nat \<times> database \<Rightarrow> database list
    \<Rightarrow> error + (string \<times> string list)" where
  "processFKColumn col database databases =
     (case fkTarget col database databases of
        Inl e \<Rightarrow> Inl e
      | Inr (targetDatabase, targetTable, targetCol) \<Rightarrow>
          (case fkTargetClause targetCol of
             Inl e \<Rightarrow> Inl e
           | Inr colSqlDesc \<Rightarrow>
               let idxes = (case c_ondelete col of
                     None \<Rightarrow> []
                   | Some act \<Rightarrow>
                       if act \<noteq> ''NO ACTION''
                       then [''FOREIGN KEY ('' @ c_name col @ '') REFERENCES ''
                             @ (if fst targetDatabase = fst database then []
                                else db_name (snd targetDatabase) @ ''.'')
                             @ t_name targetTable @ '' ('' @ c_name targetCol @ '') ON DELETE '' @ act]
                       else []);
                   colSqlDesc1 = (if c_nullable col then replace_first ''NOT NULL'' ''NULL'' colSqlDesc
                                  else colSqlDesc)
               in (case c_defaultValue col of
                     None \<Rightarrow> Inr (colSqlDesc1, idxes)
                   | Some (JNum d) \<Rightarrow>
                       if \<not> isSafeInteger d then Inl TypeError
                       else Inr (colSqlDesc1 @ '' DEFAULT '' @ show_int d, idxes)
                   | Some _ \<Rightarrow> Inl TypeError)))"

definition plain :: "error + string \<Rightarrow> error + (string \<times> string list)" where
  "plain r = (case r of Inl e \<Rightarrow> Inl e | Inr colSqlDesc \<Rightarrow> Inr (colSqlDesc, []))"

definition processColumn :: "column \<Rightarrow> nat \<times> database \<Rightarrow> database list
    \<Rightarrow> error + (string \<times> string list)" where
  "processColumn col database databases =
     (if \<not> valid_column_name (c_name col) then Inl Error
      else (case (if c_type col = ''FK'' then processFKColumn col database databases
                  else if c_type col = ''integer'' then plain (processIntegerColumn col)
                  else if c_type col = ''serial'' then plain (processSerialColumn col)
                  else if c_type col = ''timestamp'' then plain (processTimestampColumn col)
                  else if c_type col = ''string'' then plain (processStringColumn col)
                  else if c_type col = ''binary'' then plain (processBinaryColumn col)
                  else if c_type col = ''boolean'' then plain (processBooleanColumn col)
                  else if c_type col = ''code'' then plain (processCodeColumn col)
                  else Inl TypeError) of
              Inl e \<Rightarrow> Inl e
            | Inr (colSqlDesc, idxes) \<Rightarrow> Inr (c_name col @ '' '' @ colSqlDesc, idxes)))"

fun processColumns :: "column list \<Rightarrow> nat \<times> database \<Rightarrow> database list
    \<Rightarrow> string list \<times> string list \<Rightarrow> error + (string list \<times> string list)" where
  "processColumns [] database databases acc = Inr acc"
| "processColumns (col # cols) database databases (tableSqlCols, tableSqlIdxes) =
     (case processColumn col database databases of
        Inl e \<Rightarrow> Inl e
      | Inr (colSql, idxes) \<Rightarrow>
          processColumns cols database databases (tableSqlCols @ [colSql], tableSqlIdxes @ idxes))"

definition nl :: string where
  "nl = [CHR 0x0A]"

definition spaces :: "nat \<Rightarrow> string" where
  "spaces n = replicate n CHR '' ''"

definition processTable :: "table \<Rightarrow> nat \<times> database \<Rightarrow> database list \<Rightarrow> error + string" where
  "processTable table database databases =
     (if \<not> valid_table_name (t_name table) then Inl Error
      else if t_type table \<noteq> ''fixed'' then Inl TypeError
      else (case processIndexes (t_indexes table) [] of
              Inl e \<Rightarrow> Inl e
            | Inr tableSqlIdxes0 \<Rightarrow>
                (case processColumns (t_columns table) database databases ([], tableSqlIdxes0) of
                   Inl e \<Rightarrow> Inl e
                 | Inr (tableSqlCols, tableSqlIdxes) \<Rightarrow>
                     Inr (nl @ spaces 8 @ ''CREATE TABLE '' @ t_name table @ '' ('' @ nl @ spaces 12
                          @ join ('','' @ nl) (tableSqlCols @ tableSqlIdxes) @ nl @ spaces 8 @ '');''
                          @ nl @ spaces 4))))"

section \<open>SQL emitter: files\<close>

text \<open>
  The output directory is a map from paths to file contents; \<^verbatim>\<open>fs.outputFileSync\<close>
  replaces the content of a path. An exception ends the process: the files written so far
  stay, and nothing more is written.
\<close>

type_synonym files = "string \<rightharpoonup> string"

fun processTables :: "table list \<Rightarrow> nat \<times> database \<Rightarrow> database list \<Rightarrow> string \<Rightarrow> error + string" where
  "processTables [] database databases dbSql = Inr dbSql"
| "processTables (table # tables) database databases dbSql =
     (case processTable table database databases of
        Inl e \<Rightarrow> Inl e
      | Inr sql \<Rightarrow> processTables tables database databases (dbSql @ sql))"

definition databaseSql :: "nat \<times> database \<Rightarrow> database list \<Rightarrow> error + string" where
  "databaseSql db databases =
     processTables (db_tables (snd db)) db databases
       (nl @ spaces 12 @ ''CREATE DATABASE '' @ db_name (snd db)
        @ '' CHARACTER SET utf8mb4 COLLATE utf8mb4_unicode_ci;'' @ nl @ spaces 12
        @ ''USE '' @ db_name (snd db) @ '';'' @ nl @ spaces 8)"

fun sqlDatabases :: "string \<Rightarrow> string \<Rightarrow> (nat \<times> database) list \<Rightarrow> database list \<Rightarrow> files
    \<Rightarrow> files \<times> error option" where
  "sqlDatabases out_dir f [] databases fs = (fs, None)"
| "sqlDatabases out_dir f (db # dbs) databases fs =
     (case databaseSql db databases of
        Inl e \<Rightarrow> (fs, Some e)
      | Inr dbSql \<Rightarrow> sqlDatabases out_dir f dbs databases (fs(out_dir @ ''/'' @ f @ ''.sql'' \<mapsto> dbSql)))"

definition sqlFile :: "string \<Rightarrow> string \<Rightarrow> database list \<Rightarrow> files \<Rightarrow> files \<times> error option" where
  "sqlFile out_dir f databases fs = sqlDatabases out_dir f (enumerate 0 databases) databases fs"


section \<open>Descriptor emitter\<close>

text \<open>
  \<^verbatim>\<open>to-lua.js\<close> builds the text \<^verbatim>\<open>luaCode\<close> by appending one template after another.
  Each template is a constructor here, in the order of its appending; the text of a
  column object is kept as the column record it is printed from, and the statements of a
  code column as the values they are printed from. The text is minified by a library
  before it is written, so the emitter takes the printer of the list as a parameter.
\<close>

datatype lua_chunk =
    Prologue
  | CoreHeader string
  | InstHeader
  | TableHeader string string
  | ColumnObject string string column "code_value list option"
  | TableSeal string string
  | DatabaseSeal string
  | Epilogue

text \<open>
  The state of the run on one file: the two databases found by type, whose column objects
  the run changes in place, and the text appended so far.
\<close>

record lua_state =
  coreDatabase :: "database option"
  instDatabase :: "database option"
  luaCode :: "lua_chunk list"

definition get_db :: "string \<Rightarrow> lua_state \<Rightarrow> database option" where
  "get_db type st = (if type = ''core'' then coreDatabase st else instDatabase st)"

definition put_column :: "string \<Rightarrow> nat \<Rightarrow> nat \<Rightarrow> column \<Rightarrow> lua_state \<Rightarrow> lua_state" where
  "put_column type ti ci col st =
     (let upd = map_option (\<lambda>db. db\<lparr>db_tables := (db_tables db)
                  [ti := (db_tables db ! ti)\<lparr>t_columns := (t_columns (db_tables db ! ti))[ci := col]\<rparr>]\<rparr>)
      in if type = ''core'' then st\<lparr>coreDatabase := upd (coreDatabase st)\<rparr>
         else st\<lparr>instDatabase := upd (instDatabase st)\<rparr>)"

text \<open>
  Lines 89 to 111: the column an \<^verbatim>\<open>FK\<close> column is replaced by. Reading a property of
  \<^verbatim>\<open>undefined\<close> (no core database, no instance database, no table of that name, no
  \<^verbatim>\<open>column\<close> path) fails with the runtime's \<^verbatim>\<open>TypeError\<close>.
\<close>

definition fkParts :: "string list \<Rightarrow> string option \<times> string option \<times> string option" where
  "fkParts parts = (case parts of
      [a, b, c] \<Rightarrow> (Some a, Some b, Some c)
    | a # b # _ \<Rightarrow> (None, Some a, Some b)
    | [a] \<Rightarrow> (None, Some a, None)
    | [] \<Rightarrow> (None, None, None))"

definition resolveFK :: "lua_state \<Rightarrow> string \<Rightarrow> column \<Rightarrow> error + column" where
  "resolveFK st type column =
     (case c_column column of
        None \<Rightarrow> Inl TypeError
      | Some path \<Rightarrow>
          (case fkParts (split_on CHR ''.'' path) of
             (fkDatabase, fkTable, fkColName) \<Rightarrow>
               (case (case fkDatabase of
                        None \<Rightarrow> Inr (if type = ''core'' then coreDatabase st else instDatabase st)
                      | Some n \<Rightarrow>
                          (case coreDatabase st of
                             None \<Rightarrow> Inl TypeError
                           | Some core \<Rightarrow>
                               Inr (if n = db_name core then coreDatabase st else instDatabase st))) of
                  Inl e \<Rightarrow> Inl e
                | Inr None \<Rightarrow> Inl TypeError
                | Inr (Some db) \<Rightarrow>
                    (case find (\<lambda>t. Some (t_name t) = fkTable) (db_tables db) of
                       None \<Rightarrow> Inl TypeError
                     | Some t \<Rightarrow>
                         (case find (\<lambda>col. Some (c_name col) = fkColName) (t_columns t) of
                            None \<Rightarrow> Inl ReferenceError
                          | Some fkCol \<Rightarrow>
                              Inr (fkCol\<lparr>c_name := c_name column, c_nullable := c_nullable column,
                                     c_values := None\<rparr>))))))"

text \<open>Lines 115 to 147 and 148 to 175: the bound given to an integer column that has none.\<close>

definition integerMinValue :: "column \<Rightarrow> error + int" where
  "integerMinValue column =
     (if c_autoIncrement column then Inr 1
      else if c_unsigned column then Inr 0
      else if c_size column = Some ''TINYINT'' then Inr (- 128)
      else if c_size column = Some ''SMALLINT'' then Inr (- 32768)
      else if c_size column = Some ''MEDIUMINT'' then Inr (- 8388608)
      else if c_size column = Some ''INT'' then Inr (- 2147483648)
      else if c_size column = Some ''BIGINT'' then Inr (- 99999999999999)
      else Inl SyntaxError)"

definition integerMaxValue :: "column \<Rightarrow> error + int" where
  "integerMaxValue column =
     (if c_size column = Some ''TINYINT'' then Inr (if c_unsigned column then 255 else 127)
      else if c_size column = Some ''SMALLINT'' then Inr (if c_unsigned column then 65535 else 32767)
      else if c_size column = Some ''MEDIUMINT'' then Inr (if c_unsigned column then 16777215 else 8388607)
      else if c_size column = Some ''INT'' then Inr (if c_unsigned column then 4294967295 else 2147483647)
      else if c_size column = Some ''BIGINT''
      then Inr (if c_unsigned column then 99999999999999 else 99999999999999)
      else Inl SyntaxError)"

text \<open>Lines 178 to 203.\<close>

definition serialMaxValue :: "column \<Rightarrow> error + int" where
  "serialMaxValue column =
     (if c_size column = Some ''TINYINT'' then Inr 255
      else if c_size column = Some ''SMALLINT'' then Inr 65535
      else if c_size column = Some ''MEDIUMINT'' then Inr 16777215
      else if c_size column = Some ''INT'' then Inr 4294967295
      else if c_size column = Some ''BIGINT'' then Inr 99999999999999
      else Inl SyntaxError)"

text \<open>Lines 114 to 204: the column with its bounds attached.\<close>

definition resolveBounds :: "column \<Rightarrow> error + column" where
  "resolveBounds column =
     (if c_type column = ''integer''
      then (case (if c_minValue column = None
                  then (case integerMinValue column of
                          Inl e \<Rightarrow> Inl e
                        | Inr v \<Rightarrow> Inr (column\<lparr>c_minValue := Some v\<rparr>))
                  else Inr column) of
              Inl e \<Rightarrow> Inl e
            | Inr column1 \<Rightarrow>
                if c_maxValue column1 = None
                then (case integerMaxValue column1 of
                        Inl e \<Rightarrow> Inl e
                      | Inr v \<Rightarrow> Inr (column1\<lparr>c_maxValue := Some v\<rparr>))
                else Inr column1)
      else if c_type column = ''serial''
      then (case serialMaxValue (column\<lparr>c_minValue := Some 1\<rparr>) of
              Inl e \<Rightarrow> Inl e
            | Inr v \<Rightarrow> Inr (column\<lparr>c_minValue := Some 1, c_maxValue := Some v\<rparr>))
      else Inr column)"

text \<open>
  Lines 205 to 221: the comments are deleted, the object is tagged, and the values of a
  code column are taken out of the object into the statements that follow it.
\<close>

definition finishColumn :: "column \<Rightarrow> column \<times> code_value list option" where
  "finishColumn column =
     (let column1 = column\<lparr>c_comments := None, c_objectType := Some ''column''\<rparr>
      in if c_type column1 = ''code'' \<and> c_values column1 \<noteq> None
         then (column1\<lparr>c_values := None\<rparr>, c_values column1)
         else (column1, None))"

text \<open>
  \<^verbatim>\<open>objectToLua\<close> refuses a property whose value is an object. With the fields of the
  data model, the array of values is the only one that can be.
\<close>

definition objectToLua :: "column \<Rightarrow> error + column" where
  "objectToLua obj = (if c_values obj \<noteq> None then Inl SyntaxError else Inr obj)"

text \<open>
  One turn of the loop over the columns of a table (lines 86 to 229), for the column at
  position \<open>ci\<close> of the table at position \<open>ti\<close>. An \<^verbatim>\<open>FK\<close> column is replaced by a copy
  of its target, so the changes are made to the copy; any other column is changed in
  place, in the database it belongs to.
\<close>

definition writeColumn :: "string \<Rightarrow> nat \<Rightarrow> nat \<Rightarrow> lua_state \<Rightarrow> error + lua_state" where
  "writeColumn type ti ci st =
     (case get_db type st of
        None \<Rightarrow> Inl TypeError
      | Some db \<Rightarrow>
          let table = db_tables db ! ti;
              column0 = t_columns table ! ci
          in (case (if c_type column0 = ''FK'' then resolveFK st type column0 else Inr column0) of
                Inl e \<Rightarrow> Inl e
              | Inr column1 \<Rightarrow>
                  (case resolveBounds column1 of
                     Inl e \<Rightarrow> Inl e
                   | Inr column2 \<Rightarrow>
                       (case finishColumn column2 of
                          (column3, codeValuesLua) \<Rightarrow>
                            (case objectToLua column3 of
                               Inl e \<Rightarrow> Inl e
                             | Inr obj \<Rightarrow>
                                 Inr ((if c_type column0 = ''FK'' then st
                                       else put_column type ti ci column3 st)
                                      \<lparr>luaCode := luaCode st
                                         @ [ColumnObject type (t_name table) obj codeValuesLua]\<rparr>))))))"

fun writeColumns :: "string \<Rightarrow> nat \<Rightarrow> nat list \<Rightarrow> lua_state \<Rightarrow> error + lua_state" where
  "writeColumns type ti [] st = Inr st"
| "writeColumns type ti (ci # cis) st =
     (case writeColumn type ti ci st of
        Inl e \<Rightarrow> Inl e
      | Inr st' \<Rightarrow> writeColumns type ti cis st')"

definition writeTable :: "string \<Rightarrow> nat \<Rightarrow> lua_state \<Rightarrow> error + lua_state" where
  "writeTable type ti st =
     (case get_db type st of
        None \<Rightarrow> Inl TypeError
      | Some db \<Rightarrow>
          let table = db_tables db ! ti
          in (case writeColumns type ti [0 ..< length (t_columns table)]
                     (st\<lparr>luaCode := luaCode st @ [TableHeader type (t_name table)]\<rparr>) of
                Inl e \<Rightarrow> Inl e
              | Inr st' \<Rightarrow> Inr (st'\<lparr>luaCode := luaCode st' @ [TableSeal type (t_name table)]\<rparr>)))"

fun writeTables :: "string \<Rightarrow> nat list \<Rightarrow> lua_state \<Rightarrow> error + lua_state" where
  "writeTables type [] st = Inr st"
| "writeTables type (ti # tis) st =
     (case writeTable type ti st of
        Inl e \<Rightarrow> Inl e
      | Inr st' \<Rightarrow> writeTables type tis st')"

text \<open>Lines 235 to 252, for one of the two databases.\<close>

definition writeDatabase :: "string \<Rightarrow> lua_state \<Rightarrow> error + lua_state" where
  "writeDatabase type st =
     (case get_db type st of
        None \<Rightarrow> Inr st
      | Some db \<Rightarrow>
          (case writeTables type [0 ..< length (db_tables db)] st of
             Inl e \<Rightarrow> Inl e
           | Inr st' \<Rightarrow> Inr (st'\<lparr>luaCode := luaCode st' @ [DatabaseSeal type]\<rparr>)))"

text \<open>Lines 13 to 258: the text built for one input file.\<close>

definition luaFile :: "database list \<Rightarrow> error + lua_chunk list" where
  "luaFile databases =
     (if length databases < 1 \<or> length databases > 2 then Inl SyntaxError
      else
        let core = find (\<lambda>db. db_type db = ''fixed'') databases;
            inst = find (\<lambda>db. db_type db = ''instance'') databases;
            st = \<lparr>coreDatabase = core, instDatabase = inst,
                  luaCode = [Prologue]
                    @ (case core of None \<Rightarrow> [] | Some db \<Rightarrow> [CoreHeader (db_name db)])
                    @ (case inst of None \<Rightarrow> [] | Some db \<Rightarrow> [InstHeader])\<rparr>
        in (case writeDatabase ''core'' st of
              Inl e \<Rightarrow> Inl e
            | Inr st1 \<Rightarrow>
                (case writeDatabase ''inst'' st1 of
                   Inl e \<Rightarrow> Inl e
                 | Inr st2 \<Rightarrow> Inr (luaCode st2 @ [Epilogue]))))"

fun luaMain :: "(lua_chunk list \<Rightarrow> string) \<Rightarrow> string \<Rightarrow> (string \<times> database list) list \<Rightarrow> files
    \<Rightarrow> files \<times> error option" where
  "luaMain minify out_dir [] fs = (fs, None)"
| "luaMain minify out_dir ((f, databases) # rest) fs =
     (case luaFile databases of
        Inl e \<Rightarrow> (fs, Some e)
      | Inr code \<Rightarrow> luaMain minify out_dir rest (fs(out_dir @ ''/'' @ f @ ''.lua'' \<mapsto> minify code)))"

section \<open>Notions used by the properties\<close>

text \<open>A rule accepts its input when it returns a value and rejects it when it throws.\<close>

definition accepts :: "error + 'a \<Rightarrow> bool" where
  "accepts r = (case r of Inl e \<Rightarrow> False | Inr v \<Rightarrow> True)"

text \<open>The pair of bounds the descriptor emitter attaches to a column.\<close>

definition resolvedBounds :: "column \<Rightarrow> error + (int option \<times> int option)" where
  "resolvedBounds column =
     (case resolveBounds column of Inl e \<Rightarrow> Inl e | Inr c \<Rightarrow> Inr (c_minValue c, c_maxValue c))"



text \<open>A column object that has a name and a type and no other property.\<close>

definition bareColumn :: "string \<Rightarrow> string \<Rightarrow> column" where
  "bareColumn n t =
     \<lparr>c_name = n, c_type = t, c_nullable = False, c_defaultValue = None, c_size = None,
      c_unsigned = False, c_autoIncrement = False, c_minValue = None, c_maxValue = None,
      c_minLength = None, c_maxLength = None, c_minSize = None, c_maxSize = None,
      c_values = None, c_column = None, c_ondelete = None, c_comments = None,
      c_objectType = None\<rparr>"

text \<open>
  The values of a code column as the data model types them: every code a safe integer
  that is not negative, every name matching the pattern of value names.
\<close>

definition wellFormedValues :: "code_value list \<Rightarrow> bool" where
  "wellFormedValues vals =
     list_all (\<lambda>v. isSafeInteger (v_code v) \<and> 0 \<le> v_code v \<and> valid_value_name (v_value v)) vals"

text \<open>A code column with the given values and default.\<close>

definition codeColumn :: "code_value list \<Rightarrow> jval option \<Rightarrow> column" where
  "codeColumn vals d = (bareColumn ''status'' ''code'')\<lparr>c_values := Some vals, c_defaultValue := d\<rparr>"

text \<open>
  Two databases for the examples: a core database with one valid table, and an instance
  database whose only table has a name that does not match the pattern of table names.
\<close>

definition exampleCore :: database where
  "exampleCore = \<lparr>db_name = ''core'', db_type = ''fixed'', db_tables =
     [\<lparr>t_name = ''users'', t_type = ''fixed'',
       t_columns = [(bareColumn ''id'' ''serial'')\<lparr>c_size := Some ''INT''\<rparr>],
       t_indexes = [\<lparr>i_type = ''primary'', i_columns = [''id'']\<rparr>]\<rparr>]\<rparr>"

definition brokenTable :: table where
  "brokenTable = \<lparr>t_name = ''UserAccounts'', t_type = ''fixed'', t_columns = [], t_indexes = []\<rparr>"

definition exampleBroken :: database where
  "exampleBroken = \<lparr>db_name = ''inst'', db_type = ''instance'', db_tables = [brokenTable]\<rparr>"

text \<open>
  An unsigned TINYINT column with the given explicit bounds, and a core database whose
  only table has the given column only.
\<close>

definition tinyUnsigned :: "int option \<Rightarrow> int option \<Rightarrow> column" where
  "tinyUnsigned mn mx =
     (bareColumn ''level'' ''integer'')
       \<lparr>c_size := Some ''TINYINT'', c_unsigned := True, c_minValue := mn, c_maxValue := mx\<rparr>"

definition singleColumnDb :: "column \<Rightarrow> database" where
  "singleColumnDb col =
     \<lparr>db_name = ''main'', db_type = ''fixed'', db_tables =
        [\<lparr>t_name = ''levels'', t_type = ''fixed'', t_columns = [col], t_indexes = []\<rparr>]\<rparr>"

text \<open>A segment of a dotted reference path: not empty, and without a dot.\<close>

definition segment :: "string \<Rightarrow> bool" where
  "segment s = (s \<noteq> [] \<and> CHR ''.'' \<notin> set s)"

text \<open>
  A core database for the examples of foreign keys: the table \<^verbatim>\<open>users\<close> has the given
  column, and the table \<^verbatim>\<open>items\<close> has the column \<^verbatim>\<open>owner\<close>, a foreign key with the given
  reference path.
\<close>

definition ownerColumn :: "string \<Rightarrow> column" where
  "ownerColumn path = (bareColumn ''owner'' ''FK'')\<lparr>c_column := Some path\<rparr>"

definition referencingDb :: "column \<Rightarrow> string \<Rightarrow> database" where
  "referencingDb target path =
     \<lparr>db_name = ''main'', db_type = ''fixed'', db_tables =
        [\<lparr>t_name = ''users'', t_type = ''fixed'', t_columns = [target], t_indexes = []\<rparr>,
         \<lparr>t_name = ''items'', t_type = ''fixed'', t_columns = [ownerColumn path], t_indexes = []\<rparr>]\<rparr>"

definition idColumn :: "bool \<Rightarrow> column" where
  "idColumn n =
     (bareColumn ''id'' ''integer'')\<lparr>c_size := Some ''INT'', c_unsigned := True, c_nullable := n\<rparr>"












section \<open>Properties\<close>

subsection \<open>The table of absolute bounds\<close>

lemma absMin_table:
  "absMin sz True = Some 0"
  "absMin ''TINYINT'' False = Some (- 128)"
  "absMin ''SMALLINT'' False = Some (- 32768)"
  "absMin ''MEDIUMINT'' False = Some (- 8388608)"
  "absMin ''INT'' False = Some (- 2147483648)"
  "absMin ''BIGINT'' False = Some (- 99999999999999)"
  by (simp_all add: absMin_def INTEGER_MIN_def)

lemma absMax_table:
  "absMax ''TINYINT'' True = Some 255"
  "absMax ''SMALLINT'' True = Some 65535"
  "absMax ''MEDIUMINT'' True = Some 16777215"
  "absMax ''INT'' True = Some 4294967295"
  "absMax ''BIGINT'' True = Some 99999999999999"
  "absMax ''TINYINT'' False = Some 127"
  "absMax ''SMALLINT'' False = Some 32767"
  "absMax ''MEDIUMINT'' False = Some 8388607"
  "absMax ''INT'' False = Some 2147483647"
  "absMax ''BIGINT'' False = Some 99999999999999"
  by (simp_all add: absMax_def INTEGER_MAX_UNSIGNED_def INTEGER_MAX_SIGNED_def)




subsection \<open>Timestamp defaults\<close>

lemma show_int_0: "show_int 0 = ''0''"
  by code_simp

text \<open>
  C6. A timestamp column that has a default value is accepted exactly when the column is
  unsigned and the default is the number 0. On a signed column the default is an error;
  on an unsigned column a default other than 0 is a range error.
\<close>

theorem timestamp_default:
  "c_defaultValue col = Some d \<Longrightarrow>
     (accepts (processTimestampColumn col) \<longleftrightarrow> c_unsigned col \<and> d = JNum 0)
   \<and> (\<not> c_unsigned col \<longrightarrow> processTimestampColumn col = Inl Error)
   \<and> (c_unsigned col \<and> d \<noteq> JNum 0 \<longrightarrow> processTimestampColumn col = Inl RangeError)
   \<and> (c_unsigned col \<and> d = JNum 0 \<longrightarrow>
        processTimestampColumn col = Inr ''BIGINT UNSIGNED NOT NULL DEFAULT 0'')"
  by (simp add: processTimestampColumn_def accepts_def show_int_0)

theorem timestamp_default_witness:
  "accepts (processTimestampColumn
      ((bareColumn ''created'' ''timestamp'')\<lparr>c_unsigned := True, c_defaultValue := Some (JNum 0)\<rparr>))
   \<and> processTimestampColumn
      ((bareColumn ''created'' ''timestamp'')\<lparr>c_unsigned := False, c_defaultValue := Some (JNum 0)\<rparr>)
       = Inl Error
   \<and> processTimestampColumn
      ((bareColumn ''created'' ''timestamp'')\<lparr>c_unsigned := True, c_defaultValue := Some (JNum 5)\<rparr>)
       = Inl RangeError"
  using timestamp_default [of "(bareColumn ''created'' ''timestamp'')\<lparr>c_unsigned := True, c_defaultValue := Some (JNum 0)\<rparr>" "JNum 0"]
    timestamp_default [of "(bareColumn ''created'' ''timestamp'')\<lparr>c_unsigned := False, c_defaultValue := Some (JNum 0)\<rparr>" "JNum 0"]
    timestamp_default [of "(bareColumn ''created'' ''timestamp'')\<lparr>c_unsigned := True, c_defaultValue := Some (JNum 5)\<rparr>" "JNum 5"]
  by (simp add: bareColumn_def accepts_def)


subsection \<open>Explicit bounds of integer columns\<close>

lemma INTEGER_SIZES_cases:
  "sz \<in> set INTEGER_SIZES \<longleftrightarrow>
     sz = ''TINYINT'' \<or> sz = ''SMALLINT'' \<or> sz = ''MEDIUMINT'' \<or> sz = ''INT'' \<or> sz = ''BIGINT''"
  by (auto simp: INTEGER_SIZES_def)

lemma abs_bounds_defined:
  "sz \<in> set INTEGER_SIZES \<Longrightarrow> \<exists>lo hi. absMin sz u = Some lo \<and> absMax sz u = Some hi \<and> lo \<le> 0 \<and> 1 \<le> hi"
  unfolding INTEGER_SIZES_cases
  by (cases u) (auto simp: absMin_def absMax_def INTEGER_MIN_def INTEGER_MAX_UNSIGNED_def INTEGER_MAX_SIGNED_def)

text \<open>
  C10. For an integer column with an explicit minimum and maximum, the SQL rule checks
  the minimum against the absolute minimum and the maximum against the absolute maximum
  of its size and signedness (and the default value against both), and nothing else: the
  two bounds are never compared with each other. The descriptor emitter leaves such a
  column as it is. So a column whose minimum exceeds its maximum passes both.
\<close>

theorem integer_bounds_not_ordered:
  "c_type col = ''integer'' \<Longrightarrow> c_size col = Some sz \<Longrightarrow> sz \<in> set INTEGER_SIZES \<Longrightarrow>
   c_minValue col = Some mn \<Longrightarrow> c_maxValue col = Some mx \<Longrightarrow>
   \<exists>lo hi. absMin sz (c_unsigned col) = Some lo \<and> absMax sz (c_unsigned col) = Some hi
     \<and> (accepts (processIntegerColumn col) \<longleftrightarrow>
          lo \<le> mn \<and> mx \<le> hi
          \<and> (case c_defaultValue col of
               None \<Rightarrow> True
             | Some (JNum d) \<Rightarrow> isSafeInteger d \<and> lo \<le> d \<and> d \<le> hi
             | Some _ \<Rightarrow> False))
     \<and> resolveBounds col = Inr col"
proof -
  assume a: "c_type col = ''integer''" "c_size col = Some sz" "sz \<in> set INTEGER_SIZES"
    "c_minValue col = Some mn" "c_maxValue col = Some mx"
  from abs_bounds_defined [OF a(3)] obtain lo hi
    where b: "absMin sz (c_unsigned col) = Some lo" "absMax sz (c_unsigned col) = Some hi"
    by blast
  have "accepts (processIntegerColumn col) \<longleftrightarrow>
          lo \<le> mn \<and> mx \<le> hi
          \<and> (case c_defaultValue col of
               None \<Rightarrow> True
             | Some (JNum d) \<Rightarrow> isSafeInteger d \<and> lo \<le> d \<and> d \<le> hi
             | Some _ \<Rightarrow> False)"
  proof (cases "c_defaultValue col")
    case None
    then show ?thesis using a b
      by (auto simp: processIntegerColumn_def accepts_def js_lt_def js_gt_def Let_def)
  next
    case (Some d)
    then show ?thesis using a b
      by (cases d) (auto simp: processIntegerColumn_def accepts_def js_lt_def js_gt_def Let_def)
  qed
  moreover have "resolveBounds col = Inr col"
    using a by (simp add: resolveBounds_def)
  ultimately show ?thesis using b by blast
qed


text \<open>
  A whole schema with such a column (minimum 300, above the absolute maximum 255 of an
  unsigned TINYINT, and maximum 10) goes through both emitters.
\<close>

lemma integer_min_above_max_runs:
  "(let col = (bareColumn ''level'' ''integer'')
       \<lparr>c_size := Some ''TINYINT'', c_unsigned := True, c_minValue := Some 300, c_maxValue := Some 10\<rparr>;
       db = \<lparr>db_name = ''main'', db_type = ''fixed'',
             db_tables = [\<lparr>t_name = ''levels'', t_type = ''fixed'', t_columns = [col], t_indexes = []\<rparr>]\<rparr>
   in accepts (databaseSql (0, db) [db]) \<and> accepts (luaFile [db]))"
  by code_simp

theorem integer_bounds_not_ordered_witness:
  "(let col = (bareColumn ''level'' ''integer'')
       \<lparr>c_size := Some ''TINYINT'', c_unsigned := True, c_minValue := Some 300, c_maxValue := Some 10\<rparr>
   in accepts (processIntegerColumn col) \<and> resolveBounds col = Inr col
      \<and> c_minValue col = Some 300 \<and> c_maxValue col = Some 10)"
  using integer_bounds_not_ordered [of "(bareColumn ''level'' ''integer'')
       \<lparr>c_size := Some ''TINYINT'', c_unsigned := True, c_minValue := Some 300, c_maxValue := Some 10\<rparr>"
       "''TINYINT''" 300 10]
  by (simp add: bareColumn_def INTEGER_SIZES_def absMin_def absMax_def INTEGER_MAX_UNSIGNED_def)

subsection \<open>Code columns\<close>

lemma codeValues_Inr:
  "codeValues vals cs ns h = Inr (cs', ns', h') \<Longrightarrow>
     wellFormedValues vals \<and> distinct (map v_code vals) \<and> distinct (map v_value vals)
     \<and> set (map v_code vals) \<inter> set cs = {} \<and> set (map v_value vals) \<inter> set ns = {}
     \<and> set cs' = set (map v_code vals) \<union> set cs \<and> h' = fold max (map v_code vals) h"
proof (induction vals arbitrary: cs ns h)
  case Nil
  then show ?case by (simp add: wellFormedValues_def)
next
  case (Cons v vals)
  from Cons.prems have ok: "isSafeInteger (v_code v)" "0 \<le> v_code v" "valid_value_name (v_value v)"
    "v_code v \<notin> set cs" "v_value v \<notin> set ns"
    and rest: "codeValues vals (v_code v # cs) (v_value v # ns)
       (if v_code v > h then v_code v else h) = Inr (cs', ns', h')"
    by (auto simp: Let_def split: if_splits)
  have m: "(if v_code v > h then v_code v else h) = max (v_code v) h"
    by (simp add: max_def)
  from Cons.IH [OF rest] ok show ?case
    by (auto simp: wellFormedValues_def m)
qed

lemma codeValues_wellFormed:
  "wellFormedValues vals \<Longrightarrow>
   codeValues vals cs ns h =
     (if distinct (map v_code vals) \<and> distinct (map v_value vals)
         \<and> set (map v_code vals) \<inter> set cs = {} \<and> set (map v_value vals) \<inter> set ns = {}
      then Inr (rev (map v_code vals) @ cs, rev (map v_value vals) @ ns, fold max (map v_code vals) h)
      else Inl ReferenceError)"
proof (induction vals arbitrary: cs ns h)
  case Nil
  then show ?case by simp
next
  case (Cons v vals)
  from Cons.prems have wf: "wellFormedValues vals"
    and ok: "isSafeInteger (v_code v)" "0 \<le> v_code v" "valid_value_name (v_value v)"
    by (simp_all add: wellFormedValues_def)
  have m: "(if v_code v > h then v_code v else h) = max (v_code v) h"
    by (simp add: max_def)
  show ?case
    using ok by (auto simp: Let_def m Cons.IH [OF wf])
qed

lemma fold_max_gt:
  "(b::int) < fold max xs h \<longleftrightarrow> b < h \<or> (\<exists>x \<in> set xs. b < x)"
  by (induction xs arbitrary: h) auto


lemma processCodeColumn_accepts:
  assumes "c_values col = Some vals" "accepts (processCodeColumn col)"
  shows "vals \<noteq> [] \<and> wellFormedValues vals \<and> distinct (map v_code vals)
     \<and> distinct (map v_value vals) \<and> (\<forall>v \<in> set vals. v_code v \<le> 255)
     \<and> (\<forall>d. c_defaultValue col = Some d \<longrightarrow> d \<in> JNum ` set (map v_code vals))"
proof -
  from assms have ne: "vals \<noteq> []"
    by (auto simp: processCodeColumn_def accepts_def)
  from assms ne obtain cs ns h where loop: "codeValues vals [] [] 0 = Inr (cs, ns, h)"
    by (auto simp: processCodeColumn_def accepts_def split: sum.splits)
  from codeValues_Inr [OF loop]
  have inv: "wellFormedValues vals" "distinct (map v_code vals)" "distinct (map v_value vals)"
    "set cs = set (map v_code vals)" "h = fold max (map v_code vals) 0"
    by simp_all
  from assms ne loop have hi: "\<not> 255 < h"
    by (auto simp: processCodeColumn_def accepts_def split: if_splits)
  then have le: "\<forall>v \<in> set vals. v_code v \<le> 255"
    unfolding inv(5) fold_max_gt by auto
  have dflt: "d \<in> JNum ` set (map v_code vals)" if "c_defaultValue col = Some d" for d
    using assms ne loop hi that inv(4)
    by (cases d) (auto simp: processCodeColumn_def accepts_def split: if_splits)
  from ne inv le dflt show ?thesis by blast
qed

lemma processCodeColumn_wellFormed:
  assumes "c_values col = Some vals" "wellFormedValues vals" "vals \<noteq> []"
  shows "processCodeColumn col =
     (if \<not> distinct (map v_code vals) \<or> \<not> distinct (map v_value vals) then Inl ReferenceError
      else if \<exists>v \<in> set vals. 255 < v_code v then Inl RangeError
      else (case c_defaultValue col of
              None \<Rightarrow> Inr (''TINYINT UNSIGNED '' @ null_clause (c_nullable col) @ '' '')
            | Some (JNum d) \<Rightarrow>
                if d \<in> set (map v_code vals)
                then Inr (''TINYINT UNSIGNED '' @ null_clause (c_nullable col) @ '' DEFAULT '' @ show_int d)
                else Inl ReferenceError
            | Some _ \<Rightarrow> Inl ReferenceError))"
proof -
  have hi: "255 < fold max (map v_code vals) 0 \<longleftrightarrow> (\<exists>v \<in> set vals. 255 < v_code v)"
    unfolding fold_max_gt by auto
  show ?thesis
    using assms(1,3) hi
    by (auto simp: processCodeColumn_def codeValues_wellFormed [OF assms(2)]
          split: option.splits jval.splits)
qed

text \<open>
  C5. A code column with an empty list of values is rejected. A column with a duplicate
  code or a duplicate name is rejected, and so is a column with a code above 255 and a
  column whose default is not one of its codes. The checks run in the order of the code
  and the first one that fails gives the error: for values that are each well formed (a
  safe integer that is not negative, a name of capitals, digits and underscores), a
  duplicate gives a reference error; without duplicates a highest code above 255 gives a
  range error, while 255 itself passes; and then a default that is not a declared code
  gives a reference error, and the column is accepted otherwise.
\<close>

theorem code_column_validation:
  "c_values col = Some vals \<Longrightarrow>
     (vals = [] \<longrightarrow> processCodeColumn col = Inl Error)
   \<and> (\<not> distinct (map v_code vals) \<or> \<not> distinct (map v_value vals)
        \<longrightarrow> \<not> accepts (processCodeColumn col))
   \<and> ((\<exists>v \<in> set vals. 255 < v_code v) \<longrightarrow> \<not> accepts (processCodeColumn col))
   \<and> ((\<exists>d. c_defaultValue col = Some d \<and> d \<notin> JNum ` set (map v_code vals))
        \<longrightarrow> \<not> accepts (processCodeColumn col))
   \<and> (wellFormedValues vals \<and> vals \<noteq> []
        \<and> (\<not> distinct (map v_code vals) \<or> \<not> distinct (map v_value vals))
        \<longrightarrow> processCodeColumn col = Inl ReferenceError)
   \<and> (wellFormedValues vals \<and> vals \<noteq> []
        \<and> distinct (map v_code vals) \<and> distinct (map v_value vals)
        \<and> (\<exists>v \<in> set vals. 255 < v_code v)
        \<longrightarrow> processCodeColumn col = Inl RangeError)
   \<and> (wellFormedValues vals \<and> vals \<noteq> []
        \<and> distinct (map v_code vals) \<and> distinct (map v_value vals)
        \<and> (\<forall>v \<in> set vals. v_code v \<le> 255)
        \<longrightarrow> (if \<exists>d. c_defaultValue col = Some d \<and> d \<notin> JNum ` set (map v_code vals)
             then processCodeColumn col = Inl ReferenceError
             else accepts (processCodeColumn col)))"
proof -
  assume v: "c_values col = Some vals"
  have 1: "vals = [] \<longrightarrow> processCodeColumn col = Inl Error"
    using v by (simp add: processCodeColumn_def)
  have 2: "\<not> distinct (map v_code vals) \<or> \<not> distinct (map v_value vals)
        \<longrightarrow> \<not> accepts (processCodeColumn col)"
    using processCodeColumn_accepts [OF v] by blast
  have 3: "(\<exists>v \<in> set vals. 255 < v_code v) \<longrightarrow> \<not> accepts (processCodeColumn col)"
    using processCodeColumn_accepts [OF v] by fastforce
  have 4: "(\<exists>d. c_defaultValue col = Some d \<and> d \<notin> JNum ` set (map v_code vals))
        \<longrightarrow> \<not> accepts (processCodeColumn col)"
    using processCodeColumn_accepts [OF v] by blast
  have 5: "wellFormedValues vals \<and> vals \<noteq> []
        \<and> (\<not> distinct (map v_code vals) \<or> \<not> distinct (map v_value vals))
        \<longrightarrow> processCodeColumn col = Inl ReferenceError"
    using processCodeColumn_wellFormed [OF v] by auto
  have 6: "wellFormedValues vals \<and> vals \<noteq> []
        \<and> distinct (map v_code vals) \<and> distinct (map v_value vals)
        \<and> (\<exists>v \<in> set vals. 255 < v_code v)
        \<longrightarrow> processCodeColumn col = Inl RangeError"
    using processCodeColumn_wellFormed [OF v] by auto
  have 7: "wellFormedValues vals \<and> vals \<noteq> []
        \<and> distinct (map v_code vals) \<and> distinct (map v_value vals)
        \<and> (\<forall>v \<in> set vals. v_code v \<le> 255)
        \<longrightarrow> (if \<exists>d. c_defaultValue col = Some d \<and> d \<notin> JNum ` set (map v_code vals)
             then processCodeColumn col = Inl ReferenceError
             else accepts (processCodeColumn col))"
  proof (intro impI, elim conjE)
    assume a: "wellFormedValues vals" "vals \<noteq> []" "distinct (map v_code vals)"
      "distinct (map v_value vals)" "\<forall>v \<in> set vals. v_code v \<le> 255"
    have n: "\<not> (\<exists>v \<in> set vals. 255 < v_code v)"
      using a(5) by fastforce
    show "if \<exists>d. c_defaultValue col = Some d \<and> d \<notin> JNum ` set (map v_code vals)
             then processCodeColumn col = Inl ReferenceError
             else accepts (processCodeColumn col)"
      unfolding processCodeColumn_wellFormed [OF v a(1,2)] using a(3,4) n
      by (auto simp: accepts_def split: option.splits jval.splits)
  qed
  from 1 2 3 4 5 6 7 show ?thesis by blast
qed


theorem code_column_validation_witness:
  "processCodeColumn (codeColumn [] None) = Inl Error
   \<and> processCodeColumn (codeColumn [\<lparr>v_code = 0, v_value = ''A''\<rparr>, \<lparr>v_code = 0, v_value = ''B''\<rparr>] None)
       = Inl ReferenceError
   \<and> processCodeColumn (codeColumn [\<lparr>v_code = 0, v_value = ''A''\<rparr>, \<lparr>v_code = 1, v_value = ''A''\<rparr>] None)
       = Inl ReferenceError
   \<and> processCodeColumn (codeColumn [\<lparr>v_code = 256, v_value = ''A''\<rparr>] None) = Inl RangeError
   \<and> accepts (processCodeColumn (codeColumn [\<lparr>v_code = 255, v_value = ''A''\<rparr>] None))
   \<and> processCodeColumn (codeColumn [\<lparr>v_code = 255, v_value = ''A''\<rparr>] (Some (JNum 7)))
       = Inl ReferenceError
   \<and> accepts (processCodeColumn (codeColumn [\<lparr>v_code = 255, v_value = ''A''\<rparr>] (Some (JNum 255))))"
  using code_column_validation [of "codeColumn [] None" "[]"]
    code_column_validation [of "codeColumn [\<lparr>v_code = 0, v_value = ''A''\<rparr>, \<lparr>v_code = 0, v_value = ''B''\<rparr>] None"
      "[\<lparr>v_code = 0, v_value = ''A''\<rparr>, \<lparr>v_code = 0, v_value = ''B''\<rparr>]"]
    code_column_validation [of "codeColumn [\<lparr>v_code = 0, v_value = ''A''\<rparr>, \<lparr>v_code = 1, v_value = ''A''\<rparr>] None"
      "[\<lparr>v_code = 0, v_value = ''A''\<rparr>, \<lparr>v_code = 1, v_value = ''A''\<rparr>]"]
    code_column_validation [of "codeColumn [\<lparr>v_code = 256, v_value = ''A''\<rparr>] None"
      "[\<lparr>v_code = 256, v_value = ''A''\<rparr>]"]
    code_column_validation [of "codeColumn [\<lparr>v_code = 255, v_value = ''A''\<rparr>] None"
      "[\<lparr>v_code = 255, v_value = ''A''\<rparr>]"]
    code_column_validation [of "codeColumn [\<lparr>v_code = 255, v_value = ''A''\<rparr>] (Some (JNum 7))"
      "[\<lparr>v_code = 255, v_value = ''A''\<rparr>]"]
    code_column_validation [of "codeColumn [\<lparr>v_code = 255, v_value = ''A''\<rparr>] (Some (JNum 255))"
      "[\<lparr>v_code = 255, v_value = ''A''\<rparr>]"]
  by (simp add: codeColumn_def bareColumn_def wellFormedValues_def isSafeInteger_def
        valid_value_name_def is_upper_def is_digit_def)

subsection \<open>Writing SQL files\<close>

lemma processTables_Inr:
  "processTables tables db databases acc = Inr s \<Longrightarrow>
     \<forall>t \<in> set tables. accepts (processTable t db databases)"
proof (induction tables arbitrary: acc)
  case Nil
  then show ?case by simp
next
  case (Cons t ts)
  from Cons.prems obtain sql where t: "processTable t db databases = Inr sql"
    and ts: "processTables ts db databases (acc @ sql) = Inr s"
    by (auto split: sum.splits)
  from Cons.IH [OF ts] t show ?case by (simp add: accepts_def)
qed

lemma databaseSql_table_fails:
  assumes "t \<in> set (db_tables (snd db))" "\<not> accepts (processTable t db databases)"
  shows "\<exists>e. databaseSql db databases = Inl e"
proof (cases "databaseSql db databases")
  case (Inl e)
  then show ?thesis by blast
next
  case (Inr s)
  then have "\<forall>t \<in> set (db_tables (snd db)). accepts (processTable t db databases)"
    unfolding databaseSql_def by (rule processTables_Inr)
  with assms show ?thesis by blast
qed

text \<open>
  C7. If the validation of any table of a database fails, the SQL emitter stops with the
  error before it writes the file of that database: the statements built so far are
  dropped. A file with one failing database, or with a failing first database, leaves
  the output directory as it was. When the second of two databases fails, the file
  written for the first one stays.
\<close>

theorem sql_all_or_nothing:
  "t \<in> set (db_tables d) \<Longrightarrow> \<not> accepts (processTable t (i, d) databases) \<Longrightarrow>
   \<exists>e. databaseSql (i, d) databases = Inl e
     \<and> (databases = [d] \<and> i = 0 \<longrightarrow> sqlFile out_dir f databases fs = (fs, Some e))
     \<and> (\<forall>d1. databases = [d, d1] \<and> i = 0 \<longrightarrow> sqlFile out_dir f databases fs = (fs, Some e))
     \<and> (\<forall>d0 sql0. databases = [d0, d] \<and> i = 1 \<and> databaseSql (0, d0) databases = Inr sql0 \<longrightarrow>
          sqlFile out_dir f databases fs = (fs(out_dir @ ''/'' @ f @ ''.sql'' \<mapsto> sql0), Some e))"
proof -
  assume "t \<in> set (db_tables d)" "\<not> accepts (processTable t (i, d) databases)"
  then obtain e where e: "databaseSql (i, d) databases = Inl e"
    using databaseSql_table_fails [of t "(i, d)" databases] by auto
  have "databases = [d] \<and> i = 0 \<longrightarrow> sqlFile out_dir f databases fs = (fs, Some e)"
    using e by (auto simp: sqlFile_def)
  moreover have "\<forall>d1. databases = [d, d1] \<and> i = 0 \<longrightarrow> sqlFile out_dir f databases fs = (fs, Some e)"
    using e by (auto simp: sqlFile_def)
  moreover have "\<forall>d0 sql0. databases = [d0, d] \<and> i = 1 \<and> databaseSql (0, d0) databases = Inr sql0 \<longrightarrow>
          sqlFile out_dir f databases fs = (fs(out_dir @ ''/'' @ f @ ''.sql'' \<mapsto> sql0), Some e)"
    using e by (auto simp: sqlFile_def)
  ultimately show ?thesis using e by blast
qed

theorem sql_all_or_nothing_witness:
  "\<exists>sql0. databaseSql (0, exampleCore) [exampleCore, exampleBroken] = Inr sql0
     \<and> sqlFile ''out'' ''shop'' [exampleCore, exampleBroken] Map.empty
         = ([''out/shop.sql'' \<mapsto> sql0], Some Error)
     \<and> sqlFile ''out'' ''shop'' [exampleBroken] Map.empty = (Map.empty, Some Error)"
proof -
  have t: "brokenTable \<in> set (db_tables exampleBroken)"
    by (simp add: exampleBroken_def)
  have r2: "\<not> accepts (processTable brokenTable (1, exampleBroken) [exampleCore, exampleBroken])"
    by code_simp
  have r1: "\<not> accepts (processTable brokenTable (0, exampleBroken) [exampleBroken])"
    by code_simp
  have b2: "databaseSql (1, exampleBroken) [exampleCore, exampleBroken] = Inl Error"
    by code_simp
  have b1: "databaseSql (0, exampleBroken) [exampleBroken] = Inl Error"
    by code_simp
  have "accepts (databaseSql (0, exampleCore) [exampleCore, exampleBroken])"
    by code_simp
  then obtain sql0 where g: "databaseSql (0, exampleCore) [exampleCore, exampleBroken] = Inr sql0"
    by (auto simp: accepts_def split: sum.splits)
  from sql_all_or_nothing [OF t r2, of "''out''" "''shop''" Map.empty] b2 g
  have two: "sqlFile ''out'' ''shop'' [exampleCore, exampleBroken] Map.empty
         = ([''out/shop.sql'' \<mapsto> sql0], Some Error)"
    by auto
  from sql_all_or_nothing [OF t r1, of "''out''" "''shop''" Map.empty] b1
  have one: "sqlFile ''out'' ''shop'' [exampleBroken] Map.empty = (Map.empty, Some Error)"
    by auto
  from g two one show ?thesis by blast
qed

subsection \<open>Two databases of one type\<close>

text \<open>
  C9. When a file declares two databases of the same type, the lookup by type finds the
  first of them, and nothing refers to the second: the descriptor emitter builds the
  same text, and writes the same file, as for the first database alone. The file is not
  rejected for the duplicate.
\<close>

theorem duplicate_database_type_ignored:
  "db_type d0 = db_type d1 \<Longrightarrow>
     find (\<lambda>db. db_type db = ''fixed'') [d0, d1] = (if db_type d0 = ''fixed'' then Some d0 else None)
   \<and> find (\<lambda>db. db_type db = ''instance'') [d0, d1] = (if db_type d0 = ''instance'' then Some d0 else None)
   \<and> luaFile [d0, d1] = luaFile [d0]
   \<and> luaMain minify out_dir [(f, [d0, d1])] fs = luaMain minify out_dir [(f, [d0])] fs"
  by (simp add: luaFile_def)

lemma duplicate_type_example:
  "luaFile [exampleCore, exampleBroken\<lparr>db_type := ''fixed''\<rparr>] =
     Inr [Prologue, CoreHeader ''core'', TableHeader ''core'' ''users'',
          ColumnObject ''core'' ''users''
            ((bareColumn ''id'' ''serial'')\<lparr>c_size := Some ''INT'', c_minValue := Some 1,
               c_maxValue := Some 4294967295, c_objectType := Some ''column''\<rparr>) None,
          TableSeal ''core'' ''users'', DatabaseSeal ''core'', Epilogue]"
  by code_simp

theorem duplicate_database_type_ignored_witness:
  "luaFile [exampleCore, exampleBroken\<lparr>db_type := ''fixed''\<rparr>] = luaFile [exampleCore]
   \<and> accepts (luaFile [exampleCore, exampleBroken\<lparr>db_type := ''fixed''\<rparr>])
   \<and> find (\<lambda>db. db_type db = ''fixed'') [exampleCore, exampleBroken\<lparr>db_type := ''fixed''\<rparr>]
       = Some exampleCore"
  using duplicate_database_type_ignored [of exampleCore "exampleBroken\<lparr>db_type := ''fixed''\<rparr>"]
    duplicate_type_example
  by (simp add: exampleCore_def accepts_def)

subsection \<open>Agreement of the two emitters\<close>

lemma descriptor_defaults:
  assumes "c_size col = Some sz" "sz \<in> set INTEGER_SIZES"
  shows "\<exists>lo hi uhi. absMin sz (c_unsigned col) = Some lo \<and> absMax sz (c_unsigned col) = Some hi
     \<and> absMax sz True = Some uhi \<and> lo \<le> 0 \<and> 1 \<le> hi
     \<and> integerMinValue col = Inr (if c_autoIncrement col then 1 else lo)
     \<and> integerMaxValue col = Inr hi \<and> serialMaxValue col = Inr uhi"
  using assms unfolding INTEGER_SIZES_cases
  by (cases "c_unsigned col")
     (auto simp: absMin_table absMax_table integerMinValue_def integerMaxValue_def serialMaxValue_def)

lemma processIntegerColumn_accepts:
  assumes "accepts (processIntegerColumn col)"
  shows "\<exists>sz. c_size col = Some sz \<and> sz \<in> set INTEGER_SIZES
     \<and> (\<forall>mn. c_minValue col = Some mn \<longrightarrow> \<not> js_lt mn (absMin sz (c_unsigned col)))
     \<and> (\<forall>mx. c_maxValue col = Some mx \<longrightarrow> \<not> js_gt mx (absMax sz (c_unsigned col)))"
  using assms
  by (auto simp: processIntegerColumn_def accepts_def Let_def split: option.splits if_splits)

text \<open>
  C1, as amended. The two emitters do not make the same decisions: the descriptor
  emitter validates no bound and no default, and refuses only an unknown size, and only
  when it has to fill in a bound. What holds is one direction, column by column: an
  integer or serial column that the SQL rule accepts gets its bounds from the descriptor
  emitter without an error; for an integer column they lie within the absolute bounds
  the SQL rule validates against, the minimum not below the absolute minimum and the
  maximum not above the absolute maximum, and they equal them where the column gives no
  bound of its own (the minimum only when the column is not auto-increment); for a
  serial column they are 1 and the unsigned absolute maximum of the size.
\<close>

theorem sql_accepted_bounds_within_absolute:
  "(c_type col = ''integer'' \<and> accepts (processIntegerColumn col) \<longrightarrow>
      (\<exists>sz lo hi mn mx. c_size col = Some sz
         \<and> absMin sz (c_unsigned col) = Some lo \<and> absMax sz (c_unsigned col) = Some hi
         \<and> resolvedBounds col = Inr (Some mn, Some mx) \<and> lo \<le> mn \<and> mx \<le> hi
         \<and> (c_minValue col = None \<and> \<not> c_autoIncrement col \<longrightarrow> mn = lo)
         \<and> (c_maxValue col = None \<longrightarrow> mx = hi)))
   \<and> (c_type col = ''serial'' \<and> accepts (processSerialColumn col) \<longrightarrow>
      (\<exists>sz hi. c_size col = Some sz \<and> absMax sz True = Some hi
         \<and> resolvedBounds col = Inr (Some 1, Some hi)))"
proof (intro conjI impI; elim conjE)
  assume ty: "c_type col = ''integer''" and acc: "accepts (processIntegerColumn col)"
  from processIntegerColumn_accepts [OF acc] obtain sz
    where sz: "c_size col = Some sz" "sz \<in> set INTEGER_SIZES"
      and mn: "\<And>mn. c_minValue col = Some mn \<Longrightarrow> \<not> js_lt mn (absMin sz (c_unsigned col))"
      and mx: "\<And>mx. c_maxValue col = Some mx \<Longrightarrow> \<not> js_gt mx (absMax sz (c_unsigned col))"
    by blast
  from descriptor_defaults [OF sz] obtain lo hi
    where b: "absMin sz (c_unsigned col) = Some lo" "absMax sz (c_unsigned col) = Some hi"
      "lo \<le> 0" "1 \<le> hi"
      "integerMinValue col = Inr (if c_autoIncrement col then 1 else lo)"
      "integerMaxValue col = Inr hi"
    by blast
  define mn' where "mn' = (case c_minValue col of Some v \<Rightarrow> v
                           | None \<Rightarrow> if c_autoIncrement col then 1 else lo)"
  define mx' where "mx' = (case c_maxValue col of Some v \<Rightarrow> v | None \<Rightarrow> hi)"
  have max_upd: "integerMaxValue (col\<lparr>c_minValue := v\<rparr>) = integerMaxValue col" for v
    by (simp add: integerMaxValue_def)
  have r: "resolvedBounds col = Inr (Some mn', Some mx')"
    using ty b(5,6)
    by (auto simp: resolvedBounds_def resolveBounds_def mn'_def mx'_def max_upd
          split: option.splits)
  have "lo \<le> mn'"
    using mn b(1,3) by (auto simp: mn'_def js_lt_def split: option.splits)
  moreover have "mx' \<le> hi"
    using mx b(2) by (auto simp: mx'_def js_gt_def split: option.splits)
  moreover have "c_minValue col = None \<and> \<not> c_autoIncrement col \<longrightarrow> mn' = lo"
    by (simp add: mn'_def)
  moreover have "c_maxValue col = None \<longrightarrow> mx' = hi"
    by (simp add: mx'_def)
  ultimately have "c_size col = Some sz
         \<and> absMin sz (c_unsigned col) = Some lo \<and> absMax sz (c_unsigned col) = Some hi
         \<and> resolvedBounds col = Inr (Some mn', Some mx') \<and> lo \<le> mn' \<and> mx' \<le> hi
         \<and> (c_minValue col = None \<and> \<not> c_autoIncrement col \<longrightarrow> mn' = lo)
         \<and> (c_maxValue col = None \<longrightarrow> mx' = hi)"
    using sz(1) b(1,2) r by simp
  then show "\<exists>sz lo hi mn mx. c_size col = Some sz
         \<and> absMin sz (c_unsigned col) = Some lo \<and> absMax sz (c_unsigned col) = Some hi
         \<and> resolvedBounds col = Inr (Some mn, Some mx) \<and> lo \<le> mn \<and> mx \<le> hi
         \<and> (c_minValue col = None \<and> \<not> c_autoIncrement col \<longrightarrow> mn = lo)
         \<and> (c_maxValue col = None \<longrightarrow> mx = hi)"
    by (intro exI)
next
  assume ty: "c_type col = ''serial''" and acc: "accepts (processSerialColumn col)"
  from acc obtain sz where sz: "c_size col = Some sz" "sz \<in> set INTEGER_SIZES"
    by (auto simp: processSerialColumn_def accepts_def split: option.splits if_splits)
  have upd: "serialMaxValue (col\<lparr>c_minValue := v\<rparr>) = serialMaxValue col" for v
    by (simp add: serialMaxValue_def)
  from descriptor_defaults [OF sz] obtain uhi
    where b: "absMax sz True = Some uhi" "serialMaxValue col = Inr uhi"
    by blast
  have "resolvedBounds col = Inr (Some 1, Some uhi)"
    using ty b(2) by (simp add: resolvedBounds_def resolveBounds_def upd)
  with sz(1) b(1) show "\<exists>sz hi. c_size col = Some sz \<and> absMax sz True = Some hi
         \<and> resolvedBounds col = Inr (Some 1, Some hi)"
    by blast
qed

text \<open>
  C1 as stated fails. An unsigned TINYINT column with the explicit minimum -5 is refused
  by the SQL emitter with a range error and goes through the descriptor emitter. And for
  an accepted column with the explicit minimum 5 the SQL rule validates against 0 and
  255, while the descriptor carries 5 and 255.
\<close>

theorem emitters_disagree_counterexample:
  "databaseSql (0, singleColumnDb (tinyUnsigned (Some (- 5)) None))
       [singleColumnDb (tinyUnsigned (Some (- 5)) None)] = Inl RangeError
   \<and> accepts (luaFile [singleColumnDb (tinyUnsigned (Some (- 5)) None)])
   \<and> accepts (processIntegerColumn (tinyUnsigned (Some 5) None))
   \<and> (absMin ''TINYINT'' True, absMax ''TINYINT'' True) = (Some 0, Some 255)
   \<and> resolvedBounds (tinyUnsigned (Some 5) None) = Inr (Some 5, Some 255)"
  by code_simp

theorem sql_accepted_bounds_within_absolute_witness:
  "accepts (processIntegerColumn (tinyUnsigned (Some 5) None))
   \<and> resolvedBounds (tinyUnsigned (Some 5) None) = Inr (Some 5, Some 255)
   \<and> accepts (processIntegerColumn (tinyUnsigned None None))
   \<and> resolvedBounds (tinyUnsigned None None) = Inr (Some 0, Some 255)
   \<and> accepts (processSerialColumn ((bareColumn ''id'' ''serial'')\<lparr>c_size := Some ''INT''\<rparr>))
   \<and> resolvedBounds ((bareColumn ''id'' ''serial'')\<lparr>c_size := Some ''INT''\<rparr>)
       = Inr (Some 1, Some 4294967295)"
proof -
  have direct: "accepts (processIntegerColumn (tinyUnsigned (Some 5) None))
   \<and> resolvedBounds (tinyUnsigned (Some 5) None) = Inr (Some 5, Some 255)
   \<and> accepts (processIntegerColumn (tinyUnsigned None None))
   \<and> resolvedBounds (tinyUnsigned None None) = Inr (Some 0, Some 255)
   \<and> accepts (processSerialColumn ((bareColumn ''id'' ''serial'')\<lparr>c_size := Some ''INT''\<rparr>))
   \<and> resolvedBounds ((bareColumn ''id'' ''serial'')\<lparr>c_size := Some ''INT''\<rparr>)
       = Inr (Some 1, Some 4294967295)"
    by code_simp
  have "c_type (tinyUnsigned None None) = ''integer''"
    by (simp add: tinyUnsigned_def bareColumn_def)
  with direct sql_accepted_bounds_within_absolute [of "tinyUnsigned None None"]
  have "\<exists>sz lo hi. c_size (tinyUnsigned None None) = Some sz
     \<and> absMin sz (c_unsigned (tinyUnsigned None None)) = Some lo
     \<and> absMax sz (c_unsigned (tinyUnsigned None None)) = Some hi
     \<and> resolvedBounds (tinyUnsigned None None) = Inr (Some lo, Some hi)"
    by (auto simp: tinyUnsigned_def bareColumn_def)
  moreover have "c_type ((bareColumn ''id'' ''serial'')\<lparr>c_size := Some ''INT''\<rparr>) = ''serial''"
    by (simp add: bareColumn_def)
  with direct sql_accepted_bounds_within_absolute [of "(bareColumn ''id'' ''serial'')\<lparr>c_size := Some ''INT''\<rparr>"]
  have "\<exists>sz hi. c_size ((bareColumn ''id'' ''serial'')\<lparr>c_size := Some ''INT''\<rparr>) = Some sz
     \<and> absMax sz True = Some hi
     \<and> resolvedBounds ((bareColumn ''id'' ''serial'')\<lparr>c_size := Some ''INT''\<rparr>) = Inr (Some 1, Some hi)"
    by blast
  ultimately show ?thesis using direct by simp
qed

subsection \<open>Resolution of foreign keys\<close>

lemma split_on_no_sep: "sep \<notin> set s \<Longrightarrow> split_on sep s = [s]"
  by (induction s) auto

lemma split_on_append:
  "sep \<notin> set a \<Longrightarrow> split_on sep (a @ sep # rest) = a # split_on sep rest"
  by (induction a) auto

lemma split_two:
  "segment tn \<Longrightarrow> segment cn \<Longrightarrow> split_on CHR ''.'' (tn @ CHR ''.'' # cn) = [tn, cn]"
  by (simp add: segment_def split_on_append split_on_no_sep)

lemma split_three:
  "segment dn \<Longrightarrow> segment tn \<Longrightarrow> segment cn \<Longrightarrow>
     split_on CHR ''.'' (dn @ CHR ''.'' # tn @ CHR ''.'' # cn) = [dn, tn, cn]"
  by (simp add: segment_def split_on_append split_on_no_sep)

lemma fkTarget_two:
  assumes "segment tn" "segment cn" "c_column col = Some (tn @ ''.'' @ cn)"
  shows "fkTarget col database databases =
     (case find (\<lambda>t. t_name t = tn) (db_tables (snd database)) of
        None \<Rightarrow> Inl ReferenceError
      | Some t \<Rightarrow>
          (case find (\<lambda>c. c_name c = cn) (t_columns t) of
             None \<Rightarrow> Inl ReferenceError
           | Some tc \<Rightarrow> if c_nullable tc then Inl TypeError else Inr (database, t, tc)))"
  using assms(1,2)
  by (simp add: fkTarget_def assms(3) split_two [OF assms(1,2)] segment_def Let_def cong: option.case_cong)

lemma fkTarget_three:
  assumes "segment dn" "segment tn" "segment cn" "c_column col = Some (dn @ ''.'' @ tn @ ''.'' @ cn)"
  shows "fkTarget col database databases =
     (case find (\<lambda>(i, db). db_name db = dn) (enumerate 0 databases) of
        None \<Rightarrow> Inl ReferenceError
      | Some td \<Rightarrow>
     (case find (\<lambda>t. t_name t = tn) (db_tables (snd td)) of
        None \<Rightarrow> Inl ReferenceError
      | Some t \<Rightarrow>
          (case find (\<lambda>c. c_name c = cn) (t_columns t) of
             None \<Rightarrow> Inl ReferenceError
           | Some tc \<Rightarrow> if c_nullable tc then Inl TypeError else Inr (td, t, tc))))"
  using assms(1,2,3)
  by (simp add: fkTarget_def assms(4) split_three [OF assms(1,2,3)] segment_def Let_def cong: option.case_cong)

lemma resolveFK_two:
  assumes "segment tn" "segment cn" "c_column col = Some (tn @ ''.'' @ cn)"
    "get_db type st = Some db"
  shows "resolveFK st type col =
     (case find (\<lambda>t. t_name t = tn) (db_tables db) of
        None \<Rightarrow> Inl TypeError
      | Some t \<Rightarrow>
          (case find (\<lambda>c. c_name c = cn) (t_columns t) of
             None \<Rightarrow> Inl ReferenceError
           | Some tc \<Rightarrow> Inr (tc\<lparr>c_name := c_name col, c_nullable := c_nullable col,
                                 c_values := None\<rparr>)))"
  using assms(4)
  by (simp add: resolveFK_def assms(3) split_two [OF assms(1,2)] fkParts_def get_db_def cong: option.case_cong)

lemma resolveFK_three:
  assumes "segment dn" "segment tn" "segment cn" "c_column col = Some (dn @ ''.'' @ tn @ ''.'' @ cn)"
    "coreDatabase st = Some core" "(if dn = db_name core then Some core else instDatabase st) = Some db"
  shows "resolveFK st type col =
     (case find (\<lambda>t. t_name t = tn) (db_tables db) of
        None \<Rightarrow> Inl TypeError
      | Some t \<Rightarrow>
          (case find (\<lambda>c. c_name c = cn) (t_columns t) of
             None \<Rightarrow> Inl ReferenceError
           | Some tc \<Rightarrow> Inr (tc\<lparr>c_name := c_name col, c_nullable := c_nullable col,
                                 c_values := None\<rparr>)))"
  using assms(5,6)
  by (auto simp: resolveFK_def assms(4) split_three [OF assms(1,2,3)] fkParts_def split: if_splits cong: option.case_cong)

lemma fkTarget_missing_segment:
  assumes "segment cn"
  shows "fkTarget (col\<lparr>c_column := Some cn\<rparr>) database databases = Inl ReferenceError"
    and "fkTarget (col\<lparr>c_column := Some (cn @ ''.'')\<rparr>) database databases = Inl ReferenceError"
    and "fkTarget (col\<lparr>c_column := Some (''.'' @ cn)\<rparr>) database databases = Inl ReferenceError"
  using assms
  by (simp_all add: fkTarget_def segment_def split_on_no_sep split_on_append Let_def)


text \<open>
  C3, as amended. In the SQL emitter the resolution of a foreign key fails with a
  reference error when the path has no table segment or an empty column or table
  segment, when no database has the name of a three-segment path, when the selected
  database has no table of the name, and when the first such table has no column of the
  name; when the column is found and nullable it fails with a type error. The selected
  database is the current one for a two-segment path and the first database of the name
  for a three-segment path. In the descriptor emitter, once the table is found in the
  database the path selects, the resolution fails with a reference error when the table
  has no column of the name, and otherwise yields the copy of the target, whether the
  target is nullable or not.
\<close>

theorem fk_resolution_errors:
  "segment dn \<Longrightarrow> segment tn \<Longrightarrow> segment cn \<Longrightarrow>
     fkTarget (col\<lparr>c_column := Some cn\<rparr>) database databases = Inl ReferenceError
   \<and> fkTarget (col\<lparr>c_column := Some (cn @ ''.'')\<rparr>) database databases = Inl ReferenceError
   \<and> fkTarget (col\<lparr>c_column := Some (''.'' @ cn)\<rparr>) database databases = Inl ReferenceError
   \<and> (\<forall>td. c_column col = Some (tn @ ''.'' @ cn) \<and> td = Some database
            \<or> c_column col = Some (dn @ ''.'' @ tn @ ''.'' @ cn)
               \<and> td = find (\<lambda>(i, db). db_name db = dn) (enumerate 0 databases)
        \<longrightarrow> fkTarget col database databases =
             (case td of
                None \<Rightarrow> Inl ReferenceError
              | Some d \<Rightarrow>
                  (case find (\<lambda>t. t_name t = tn) (db_tables (snd d)) of
                     None \<Rightarrow> Inl ReferenceError
                   | Some t \<Rightarrow>
                       (case find (\<lambda>c. c_name c = cn) (t_columns t) of
                          None \<Rightarrow> Inl ReferenceError
                        | Some tc \<Rightarrow> if c_nullable tc then Inl TypeError else Inr (d, t, tc)))))
   \<and> (\<forall>db t. (c_column col = Some (tn @ ''.'' @ cn) \<and> get_db type st = Some db
              \<or> c_column col = Some (dn @ ''.'' @ tn @ ''.'' @ cn)
                 \<and> (\<exists>core. coreDatabase st = Some core
                      \<and> (if dn = db_name core then Some core else instDatabase st) = Some db))
            \<and> find (\<lambda>t. t_name t = tn) (db_tables db) = Some t
        \<longrightarrow> resolveFK st type col =
             (case find (\<lambda>c. c_name c = cn) (t_columns t) of
                None \<Rightarrow> Inl ReferenceError
              | Some tc \<Rightarrow> Inr (tc\<lparr>c_name := c_name col, c_nullable := c_nullable col,
                                    c_values := None\<rparr>)))"
proof -
  assume s: "segment dn" "segment tn" "segment cn"
  note m = fkTarget_missing_segment [OF s(3), of col database databases]
  have sql: "\<forall>td. c_column col = Some (tn @ ''.'' @ cn) \<and> td = Some database
            \<or> c_column col = Some (dn @ ''.'' @ tn @ ''.'' @ cn)
               \<and> td = find (\<lambda>(i, db). db_name db = dn) (enumerate 0 databases)
        \<longrightarrow> fkTarget col database databases =
             (case td of
                None \<Rightarrow> Inl ReferenceError
              | Some d \<Rightarrow>
                  (case find (\<lambda>t. t_name t = tn) (db_tables (snd d)) of
                     None \<Rightarrow> Inl ReferenceError
                   | Some t \<Rightarrow>
                       (case find (\<lambda>c. c_name c = cn) (t_columns t) of
                          None \<Rightarrow> Inl ReferenceError
                        | Some tc \<Rightarrow> if c_nullable tc then Inl TypeError else Inr (d, t, tc))))"
    using fkTarget_two [OF s(2,3), of col database databases]
      fkTarget_three [OF s, of col database databases]
    by auto
  have lua: "\<forall>db t. (c_column col = Some (tn @ ''.'' @ cn) \<and> get_db type st = Some db
              \<or> c_column col = Some (dn @ ''.'' @ tn @ ''.'' @ cn)
                 \<and> (\<exists>core. coreDatabase st = Some core
                      \<and> (if dn = db_name core then Some core else instDatabase st) = Some db))
            \<and> find (\<lambda>t. t_name t = tn) (db_tables db) = Some t
        \<longrightarrow> resolveFK st type col =
             (case find (\<lambda>c. c_name c = cn) (t_columns t) of
                None \<Rightarrow> Inl ReferenceError
              | Some tc \<Rightarrow> Inr (tc\<lparr>c_name := c_name col, c_nullable := c_nullable col,
                                    c_values := None\<rparr>))"
  proof (intro allI impI, elim conjE disjE exE)
    fix db t
    assume "c_column col = Some (tn @ ''.'' @ cn)" "get_db type st = Some db"
      "find (\<lambda>t. t_name t = tn) (db_tables db) = Some t"
    then show "resolveFK st type col =
             (case find (\<lambda>c. c_name c = cn) (t_columns t) of
                None \<Rightarrow> Inl ReferenceError
              | Some tc \<Rightarrow> Inr (tc\<lparr>c_name := c_name col, c_nullable := c_nullable col,
                                    c_values := None\<rparr>))"
      using resolveFK_two [OF s(2,3), of col type st db] by simp
  next
    fix db t core
    assume "c_column col = Some (dn @ ''.'' @ tn @ ''.'' @ cn)" "coreDatabase st = Some core"
      "(if dn = db_name core then Some core else instDatabase st) = Some db"
      "find (\<lambda>t. t_name t = tn) (db_tables db) = Some t"
    then show "resolveFK st type col =
             (case find (\<lambda>c. c_name c = cn) (t_columns t) of
                None \<Rightarrow> Inl ReferenceError
              | Some tc \<Rightarrow> Inr (tc\<lparr>c_name := c_name col, c_nullable := c_nullable col,
                                    c_values := None\<rparr>))"
      using resolveFK_three [OF s, of col st core db type] by simp
  qed
  from m sql lua show ?thesis by blast
qed

text \<open>
  C3 as stated fails on a nullable target: the SQL emitter refuses the foreign key
  \<^verbatim>\<open>users.id\<close> with a type error, not a reference error, and the descriptor emitter
  accepts it.
\<close>

theorem fk_nullable_target_counterexample:
  "processColumn (ownerColumn ''users.id'') (0, referencingDb (idColumn True) ''users.id'')
       [referencingDb (idColumn True) ''users.id''] = Inl TypeError
   \<and> databaseSql (0, referencingDb (idColumn True) ''users.id'')
       [referencingDb (idColumn True) ''users.id''] = Inl TypeError
   \<and> accepts (luaFile [referencingDb (idColumn True) ''users.id''])"
  by code_simp


theorem fk_resolution_errors_witness:
  "fkTarget (ownerColumn ''users.id'') (0, referencingDb (idColumn True) ''users.id'')
       [referencingDb (idColumn True) ''users.id''] = Inl TypeError
   \<and> accepts (fkTarget (ownerColumn ''users.id'') (0, referencingDb (idColumn False) ''users.id'')
       [referencingDb (idColumn False) ''users.id''])
   \<and> fkTarget (ownerColumn ''people.id'') (0, referencingDb (idColumn False) ''people.id'')
       [referencingDb (idColumn False) ''people.id''] = Inl ReferenceError
   \<and> fkTarget (ownerColumn ''users.uid'') (0, referencingDb (idColumn False) ''users.uid'')
       [referencingDb (idColumn False) ''users.uid''] = Inl ReferenceError
   \<and> fkTarget (ownerColumn ''other.users.id'') (0, referencingDb (idColumn False) ''other.users.id'')
       [referencingDb (idColumn False) ''other.users.id''] = Inl ReferenceError
   \<and> fkTarget (ownerColumn ''id'') (0, referencingDb (idColumn False) ''id'')
       [referencingDb (idColumn False) ''id''] = Inl ReferenceError
   \<and> resolveFK \<lparr>coreDatabase = Some (referencingDb (idColumn True) ''users.uid''),
         instDatabase = None, luaCode = []\<rparr> ''core'' (ownerColumn ''users.uid'')
       = Inl ReferenceError
   \<and> resolveFK \<lparr>coreDatabase = Some (referencingDb (idColumn True) ''users.id''),
         instDatabase = None, luaCode = []\<rparr> ''core'' (ownerColumn ''users.id'')
       = Inr ((idColumn True)\<lparr>c_name := ''owner'', c_nullable := False\<rparr>)"
proof -
  have direct: "accepts (fkTarget (ownerColumn ''users.id'') (0, referencingDb (idColumn False) ''users.id'')
       [referencingDb (idColumn False) ''users.id''])
   \<and> fkTarget (ownerColumn ''people.id'') (0, referencingDb (idColumn False) ''people.id'')
       [referencingDb (idColumn False) ''people.id''] = Inl ReferenceError
   \<and> fkTarget (ownerColumn ''users.uid'') (0, referencingDb (idColumn False) ''users.uid'')
       [referencingDb (idColumn False) ''users.uid''] = Inl ReferenceError
   \<and> fkTarget (ownerColumn ''other.users.id'') (0, referencingDb (idColumn False) ''other.users.id'')
       [referencingDb (idColumn False) ''other.users.id''] = Inl ReferenceError
   \<and> fkTarget (ownerColumn ''id'') (0, referencingDb (idColumn False) ''id'')
       [referencingDb (idColumn False) ''id''] = Inl ReferenceError
   \<and> resolveFK \<lparr>coreDatabase = Some (referencingDb (idColumn True) ''users.uid''),
         instDatabase = None, luaCode = []\<rparr> ''core'' (ownerColumn ''users.uid'')
       = Inl ReferenceError"
    by code_simp
  have seg: "segment ''main''" "segment ''users''" "segment ''id''"
    by (simp_all add: segment_def)
  have sql: "fkTarget (ownerColumn ''users.id'') (0, referencingDb (idColumn True) ''users.id'')
       [referencingDb (idColumn True) ''users.id''] = Inl TypeError"
    using fk_resolution_errors [OF seg, of "ownerColumn ''users.id''"
        "(0, referencingDb (idColumn True) ''users.id'')" "[referencingDb (idColumn True) ''users.id'']"]
    by (simp add: ownerColumn_def bareColumn_def referencingDb_def idColumn_def)
  have lua: "resolveFK \<lparr>coreDatabase = Some (referencingDb (idColumn True) ''users.id''),
         instDatabase = None, luaCode = []\<rparr> ''core'' (ownerColumn ''users.id'')
       = Inr ((idColumn True)\<lparr>c_name := ''owner'', c_nullable := False\<rparr>)"
    using fk_resolution_errors [OF seg, of "ownerColumn ''users.id''" _ _ "''core''"
        "\<lparr>coreDatabase = Some (referencingDb (idColumn True) ''users.id''),
         instDatabase = None, luaCode = []\<rparr>"]
    by (simp add: ownerColumn_def bareColumn_def referencingDb_def idColumn_def get_db_def)
  from direct sql lua show ?thesis by simp
qed

subsection \<open>What a foreign key takes from its target\<close>

lemma digits_are_digits: "list_all is_digit (digits n)"
proof (induction n rule: digits.induct)
  case (1 n)
  have d: "is_digit (digit_char k)" if "k < 10" for k
    using that by (simp add: is_digit_def digit_char_def)
  show ?case
  proof (cases "n < 10")
    case True
    then show ?thesis by (subst digits.simps) (simp add: d)
  next
    case False
    with 1 have "list_all is_digit (digits (n div 10))" by simp
    with False show ?thesis by (subst digits.simps) (simp add: d)
  qed
qed

lemma show_int_chars: "c \<in> set (show_int i) \<Longrightarrow> c = CHR ''-'' \<or> is_digit c"
  using digits_are_digits [of "nat i"] digits_are_digits [of "nat (- i)"]
  by (auto simp: show_int_def list_all_iff split: if_splits)


lemma show_int_no_A: "CHR ''A'' \<notin> set (show_int i)"
  by (auto simp: is_digit_def dest!: show_int_chars)

lemma replace_first_absent:
  "pat \<noteq> [] \<Longrightarrow> hd pat \<notin> set s \<Longrightarrow> replace_first pat rep s = s"
  by (induction s) (auto simp: take_Suc_conv_app_nth neq_Nil_conv)

lemma replace_auto_increment_digits [simp]:
  "replace_first ''AUTO_INCREMENT'' [] (show_int i) = show_int i"
  by (rule replace_first_absent) (simp_all add: show_int_no_A)














subsection \<open>Regeneration and order of the output\<close>




































end
